theory Spec2Isabelle
  imports Complex_Main "HOL-Library.Word" "HOL-Library.AList"
begin

section \<open>Python values used by whale\_watcher.py\<close>

text \<open>
  Exceptions are values: a computation that may raise has type \<open>py_error + 'a\<close>, with
  \<open>Inl\<close> the exception. A Python float (an amount, a price, a timestamp) is modelled as
  the real number it denotes, and comparisons of floats are comparisons of these reals;
  the product of two floats is rounded, and is the library function \<open>float_mul\<close> below.
  Python integers are \<open>int\<close>; \<open>bytes\<close> are lists of 8-bit words.
\<close>

datatype py_error = ValueError | IndexError | KeyError | TypeError | AttributeError | OSError

type_synonym bytes = "8 word list"

subsection \<open>Strings\<close>

definition lower_char :: "char \<Rightarrow> char" where
  "lower_char c =
     (let n = (of_char c :: nat)
      in if 65 \<le> n \<and> n \<le> 90 then char_of (n + 32) else c)"

text \<open>\<open>str.lower()\<close> on the ASCII strings the watcher handles (hex addresses).\<close>

definition lower :: "string \<Rightarrow> string" where
  "lower s = map lower_char s"

text \<open>\<open>s.startswith(p)\<close>\<close>

definition startswith :: "string \<Rightarrow> string \<Rightarrow> bool" where
  "startswith s p = (take (length p) s = p)"

text \<open>\<open>x or ""\<close> for an optional string.\<close>

definition or_empty :: "string option \<Rightarrow> string" where
  "or_empty x = (case x of None \<Rightarrow> [] | Some s \<Rightarrow> s)"

subsection \<open>Hexadecimal\<close>

definition hex_digit :: "nat \<Rightarrow> char" where
  "hex_digit n = (''0123456789abcdef'' ! (n mod 16))"

text \<open>\<open>bytes.hex()\<close>: two lower-case digits per byte.\<close>

definition bytes_hex :: "bytes \<Rightarrow> string" where
  "bytes_hex bs = concat (map (\<lambda>b. [hex_digit (unat b div 16), hex_digit (unat b mod 16)]) bs)"

definition digit_value :: "char \<Rightarrow> nat option" where
  "digit_value c =
     (let n = (of_char c :: nat)
      in if 48 \<le> n \<and> n \<le> 57 then Some (n - 48)
         else if 97 \<le> n \<and> n \<le> 102 then Some (n - 87)
         else if 65 \<le> n \<and> n \<le> 70 then Some (n - 55)
         else None)"

definition isspace :: "char \<Rightarrow> bool" where
  "isspace c = (c \<in> set [CHR '' '', CHR 0x09, CHR 0x0A, CHR 0x0B, CHR 0x0C, CHR 0x0D])"

text \<open>
  \<open>bytes.fromhex(s)\<close>: white space is skipped before each pair of digits; anything
  else that is not a pair of hexadecimal digits raises ValueError.
\<close>

fun bytes_fromhex :: "string \<Rightarrow> py_error + bytes" where
  "bytes_fromhex [] = Inr []"
| "bytes_fromhex (c # cs) =
     (if isspace c then bytes_fromhex cs
      else (case cs of
              [] \<Rightarrow> Inl ValueError
            | d # ds \<Rightarrow>
                (case (digit_value c, digit_value d) of
                   (Some hi, Some lo) \<Rightarrow>
                     (case bytes_fromhex ds of
                        Inl e \<Rightarrow> Inl e
                      | Inr bs \<Rightarrow> Inr (of_nat (hi * 16 + lo) # bs))
                 | _ \<Rightarrow> Inl ValueError)))"

section \<open>Swap decoding: parse\_uniswap\_call\<close>

text \<open>
  The values the ABI decoder returns. \<open>AInt\<close> is a Python int, \<open>ABytes\<close> a bytes
  object, \<open>AStr\<close> a str, \<open>ATuple\<close> a tuple or list.
\<close>

datatype abi_val = AInt int | ABytes bytes | AStr string | ATuple "abi_val list"

text \<open>
  What the module takes from its libraries: the three selectors (computed at import by
  keccak), the ABI decoder (called with the list of type names and the argument bytes),
  the checksum formatter, \<open>int(v, 16)\<close> and \<open>Web3.from_wei(v, "ether")\<close> followed by
  \<open>float\<close>, each of which may raise, and the product \<open>x * y\<close> of two floats as the
  machine computes it (the exact product rounded to a double).
\<close>

record libs =
  SIG_V2_SWAP_EXACT_ETH_FOR_TOKENS :: string
  SIG_V2_SWAP_EXACT_TOKENS_FOR_TOKENS :: string
  SIG_V3_EXACT_INPUT_SINGLE :: string
  abi_decode :: "string list \<Rightarrow> bytes \<Rightarrow> py_error + abi_val list"
  to_checksum_address :: "string \<Rightarrow> py_error + string"
  int_base16 :: "string \<Rightarrow> py_error + int"
  from_wei_ether :: "int \<Rightarrow> py_error + real"
  float_mul :: "real \<Rightarrow> real \<Rightarrow> real"

text \<open>The dict \<open>{"dex": ..., "method": ..., "token_in": ..., "token_out": ...}\<close>.\<close>

record swap_info =
  swap_dex :: string
  swap_method :: string
  token_in :: string
  token_out :: string

text \<open>\<open>vals[i]\<close> on the decoder's result.\<close>

definition py_index :: "'a list \<Rightarrow> nat \<Rightarrow> py_error + 'a" where
  "py_index xs i = (if i < length xs then Inr (xs ! i) else Inl IndexError)"

text \<open>\<open>path[-1]\<close>\<close>

definition py_last :: "'a list \<Rightarrow> py_error + 'a" where
  "py_last xs = (if xs = [] then Inl IndexError else Inr (last xs))"

text \<open>\<open>for p in v\<close>: the items of an iterable, TypeError for an int.\<close>

definition py_iter :: "abi_val \<Rightarrow> py_error + abi_val list" where
  "py_iter v =
     (case v of
        ATuple xs \<Rightarrow> Inr xs
      | ABytes bs \<Rightarrow> Inr (map (\<lambda>b. AInt (uint b)) bs)
      | AStr s \<Rightarrow> Inr (map (\<lambda>c. AStr [c]) s)
      | AInt _ \<Rightarrow> Inl TypeError)"

text \<open>\<open>p.hex()\<close>: only bytes have the method.\<close>

definition py_hex :: "abi_val \<Rightarrow> py_error + string" where
  "py_hex v = (case v of ABytes bs \<Rightarrow> Inr (bytes_hex bs) | _ \<Rightarrow> Inl AttributeError)"

definition bind :: "py_error + 'a \<Rightarrow> ('a \<Rightarrow> py_error + 'b) \<Rightarrow> py_error + 'b" where
  "bind m f = (case m of Inl e \<Rightarrow> Inl e | Inr x \<Rightarrow> f x)"

text \<open>A list comprehension whose element expression may raise: the first exception wins.\<close>

fun map_raise :: "('a \<Rightarrow> py_error + 'b) \<Rightarrow> 'a list \<Rightarrow> py_error + 'b list" where
  "map_raise f [] = Inr []"
| "map_raise f (x # xs) = bind (f x) (\<lambda>y. bind (map_raise f xs) (\<lambda>ys. Inr (y # ys)))"

text \<open>\<open>Web3.to_checksum_address(p.hex())\<close>\<close>

definition checksum_of :: "libs \<Rightarrow> abi_val \<Rightarrow> py_error + string" where
  "checksum_of env p = bind (py_hex p) (to_checksum_address env)"

text \<open>
  The body of the try block of the two V2 branches; \<open>i\<close> is the position of the path
  among the decoded values (1 for swapExactETHForTokens, 2 for swapExactTokensForTokens).
\<close>

definition decode_v2 ::
  "libs \<Rightarrow> string list \<Rightarrow> nat \<Rightarrow> string \<Rightarrow> bytes \<Rightarrow> py_error + swap_info" where
  "decode_v2 env types i meth data =
     bind (bind (bytes_fromhex (bytes_hex data)) (abi_decode env types)) (\<lambda>vals.
     bind (py_index vals i) (\<lambda>v.
     bind (py_iter v) (\<lambda>ps.
     bind (map_raise (checksum_of env) ps) (\<lambda>path.
     bind (py_index path 0) (\<lambda>t_in.
     bind (py_last path) (\<lambda>t_out.
       Inr \<lparr>swap_dex = ''V2'', swap_method = meth, token_in = t_in, token_out = t_out\<rparr>))))))"

text \<open>The body of the try block of the exactInputSingle branch.\<close>

definition decode_v3 :: "libs \<Rightarrow> bytes \<Rightarrow> py_error + swap_info" where
  "decode_v3 env data =
     bind (bind (bytes_fromhex (bytes_hex data))
        (abi_decode env [''address'', ''address'', ''uint24'', ''address'',
                         ''uint256'', ''uint256'', ''uint256'', ''uint160''])) (\<lambda>vals.
     bind (bind (py_index vals 0) (checksum_of env)) (\<lambda>t_in.
     bind (bind (py_index vals 1) (checksum_of env)) (\<lambda>t_out.
       Inr \<lparr>swap_dex = ''V3'', swap_method = ''exactInputSingle'',
         token_in = t_in, token_out = t_out\<rparr>)))"

text \<open>\<open>try: return body  except Exception: return None\<close>\<close>

definition try_or_None :: "py_error + 'a \<Rightarrow> py_error + 'a option" where
  "try_or_None m = (case m of Inl _ \<Rightarrow> Inr None | Inr x \<Rightarrow> Inr (Some x))"

definition parse_uniswap_call :: "libs \<Rightarrow> bytes \<Rightarrow> py_error + swap_info option" where
  "parse_uniswap_call env input_data =
     (if length input_data < 4 then Inr None
      else
        let sig = bytes_hex (take 4 input_data);
            data = drop 4 input_data
        in if sig = SIG_V2_SWAP_EXACT_ETH_FOR_TOKENS env then
             try_or_None (decode_v2 env [''uint256'', ''address[]'', ''address'', ''uint256'']
                            1 ''swapExactETHForTokens'' data)
           else if sig = SIG_V2_SWAP_EXACT_TOKENS_FOR_TOKENS env then
             try_or_None (decode_v2 env
                            [''uint256'', ''uint256'', ''address[]'', ''address'', ''uint256'']
                            2 ''swapExactTokensForTokens'' data)
           else if sig = SIG_V3_EXACT_INPUT_SINGLE env then
             try_or_None (decode_v3 env data)
           else Inr None)"


section \<open>Documents: JSON messages, the state file, the configuration\<close>

text \<open>
  The Python value that \<open>json.loads\<close>, \<open>json.load\<close> and \<open>yaml.safe_load\<close> return. A
  dict is the list of its items, in insertion order.
\<close>

datatype pyobj =
    PNone
  | PBool bool
  | PInt int
  | PFloat real
  | PStr string
  | PList "pyobj list"
  | PDict "(string \<times> pyobj) list"

text \<open>\<open>d.get(k)\<close>: AttributeError when \<open>d\<close> is not a dict.\<close>

definition dict_get :: "pyobj \<Rightarrow> string \<Rightarrow> py_error + pyobj option" where
  "dict_get d k = (case d of PDict items \<Rightarrow> Inr (map_of items k) | _ \<Rightarrow> Inl AttributeError)"

text \<open>\<open>d[k]\<close> with a string key: KeyError on a dict without it, TypeError elsewhere.\<close>

definition getitem :: "pyobj \<Rightarrow> string \<Rightarrow> py_error + pyobj" where
  "getitem d k =
     (case d of
        PDict items \<Rightarrow> (case map_of items k of None \<Rightarrow> Inl KeyError | Some v \<Rightarrow> Inr v)
      | _ \<Rightarrow> Inl TypeError)"

text \<open>Truth value of a Python object.\<close>

definition truthy :: "pyobj \<Rightarrow> bool" where
  "truthy v =
     (case v of
        PNone \<Rightarrow> False
      | PBool b \<Rightarrow> b
      | PInt i \<Rightarrow> i \<noteq> 0
      | PFloat x \<Rightarrow> x \<noteq> 0
      | PStr s \<Rightarrow> s \<noteq> []
      | PList xs \<Rightarrow> xs \<noteq> []
      | PDict items \<Rightarrow> items \<noteq> [])"

section \<open>Subscription channels\<close>

text \<open>
  What \<open>ws.recv()\<close> returns: text that \<open>json.loads\<close> parses to a document, or text
  that it rejects.
\<close>

datatype raw_msg = Text pyobj | Garbage

text \<open>
  One pass of \<open>async with websockets.connect(...)\<close>. \<open>ConnectFailed\<close>: connecting or
  sending the subscription request raised. \<open>Connected msgs\<close>: the subscription was sent and
  \<open>msgs\<close> arrived before \<open>ws.recv()\<close> raised. The inner loop is \<open>while True\<close>, so every
  pass ends in an exception.
\<close>

datatype connection = ConnectFailed | Connected "raw_msg list"

text \<open>What the generator does, in order: it yields an item or sleeps before reconnecting.\<close>

datatype 'a gen_event = Yield 'a | Sleep int

definition json_loads :: "raw_msg \<Rightarrow> py_error + pyobj" where
  "json_loads raw = (case raw of Text d \<Rightarrow> Inr d | Garbage \<Rightarrow> Inl ValueError)"

text \<open>
  The body of the inner loop of \<open>evm_ws_sub\<close> for one message: the hash to yield, if any.
\<close>

definition evm_on_message :: "raw_msg \<Rightarrow> py_error + string option" where
  "evm_on_message raw =
     bind (json_loads raw) (\<lambda>msg.
     bind (dict_get msg ''method'') (\<lambda>m.
       if m = Some (PStr ''eth_subscription'') then
         bind (case dict_get msg ''params'' of
                 Inl e \<Rightarrow> Inl e
               | Inr None \<Rightarrow> Inr (PDict [])
               | Inr (Some p) \<Rightarrow> Inr p) (\<lambda>params.
         bind (dict_get params ''result'') (\<lambda>txh.
           case txh of
             Some (PStr h) \<Rightarrow>
               if startswith h ''0x'' \<and> length h = 66 then Inr (Some h) else Inr None
           | _ \<Rightarrow> Inr None))
       else Inr None))"

text \<open>The inner loop over the messages of one connection; an exception ends it.\<close>

fun evm_recv_loop :: "raw_msg list \<Rightarrow> string list" where
  "evm_recv_loop [] = []"
| "evm_recv_loop (raw # rest) =
     (case evm_on_message raw of
        Inl _ \<Rightarrow> []
      | Inr None \<Rightarrow> evm_recv_loop rest
      | Inr (Some h) \<Rightarrow> h # evm_recv_loop rest)"

definition next_backoff :: "int \<Rightarrow> int" where
  "next_backoff backoff = min (backoff * 2) 30"

text \<open>The outer loop of \<open>evm_ws_sub\<close>, from a given value of \<open>backoff\<close>.\<close>

fun evm_ws_sub_from :: "int \<Rightarrow> connection list \<Rightarrow> string gen_event list" where
  "evm_ws_sub_from backoff [] = []"
| "evm_ws_sub_from backoff (ConnectFailed # rest) =
     Sleep backoff # evm_ws_sub_from (next_backoff backoff) rest"
| "evm_ws_sub_from backoff (Connected msgs # rest) =
     map Yield (evm_recv_loop msgs) @ Sleep backoff # evm_ws_sub_from (next_backoff backoff) rest"

definition evm_ws_sub :: "connection list \<Rightarrow> string gen_event list" where
  "evm_ws_sub conns = evm_ws_sub_from 2 conns"

text \<open>The body of the inner loop of \<open>solana_logs_sub\<close> for one message.\<close>

definition sol_on_message :: "raw_msg \<Rightarrow> py_error + pyobj option" where
  "sol_on_message raw =
     bind (json_loads raw) (\<lambda>msg.
     bind (dict_get msg ''method'') (\<lambda>m.
       if m = Some (PStr ''logsNotification'') then
         bind (getitem msg ''params'') (\<lambda>params.
         bind (getitem params ''result'') (\<lambda>res. Inr (Some res)))
       else Inr None))"

fun sol_recv_loop :: "raw_msg list \<Rightarrow> pyobj list" where
  "sol_recv_loop [] = []"
| "sol_recv_loop (raw # rest) =
     (case sol_on_message raw of
        Inl _ \<Rightarrow> []
      | Inr None \<Rightarrow> sol_recv_loop rest
      | Inr (Some r) \<Rightarrow> r # sol_recv_loop rest)"

fun solana_logs_sub_from :: "int \<Rightarrow> connection list \<Rightarrow> pyobj gen_event list" where
  "solana_logs_sub_from backoff [] = []"
| "solana_logs_sub_from backoff (ConnectFailed # rest) =
     Sleep backoff # solana_logs_sub_from (next_backoff backoff) rest"
| "solana_logs_sub_from backoff (Connected msgs # rest) =
     map Yield (sol_recv_loop msgs) @ Sleep backoff
       # solana_logs_sub_from (next_backoff backoff) rest"

definition solana_logs_sub :: "connection list \<Rightarrow> pyobj gen_event list" where
  "solana_logs_sub conns = solana_logs_sub_from 2 conns"

text \<open>The delays and the items of a run, each in order.\<close>

fun sleeps :: "'a gen_event list \<Rightarrow> int list" where
  "sleeps [] = []"
| "sleeps (Sleep d # es) = d # sleeps es"
| "sleeps (Yield _ # es) = sleeps es"

fun yields :: "'a gen_event list \<Rightarrow> 'a list" where
  "yields [] = []"
| "yields (Sleep _ # es) = yields es"
| "yields (Yield x # es) = x # yields es"


section \<open>Native price lookup\<close>

text \<open>A cache entry \<open>{"p": usd, "t": now}\<close>.\<close>

record price_entry =
  entry_p :: real
  entry_t :: real

text \<open>
  \<open>get_native_usd\<close>, with the module's cache passed and returned, the clock reading
  \<open>now\<close>, and \<open>fetch\<close> the outcome of the HTTP request together with
  \<open>r.json()[coingecko_id]["usd"]\<close>.
\<close>

definition get_native_usd ::
  "(string \<rightharpoonup> price_entry) \<Rightarrow> real \<Rightarrow> (py_error + real) \<Rightarrow> string \<Rightarrow> int
     \<Rightarrow> real option \<times> (string \<rightharpoonup> price_entry)" where
  "get_native_usd price_cache now fetch coingecko_id cache_seconds =
     (if coingecko_id = [] then (None, price_cache)
      else
        case price_cache coingecko_id of
          Some e \<Rightarrow>
            if now - entry_t e < real_of_int cache_seconds then (Some (entry_p e), price_cache)
            else (case fetch of
                    Inl _ \<Rightarrow> (None, price_cache)
                  | Inr usd \<Rightarrow> (Some usd, price_cache(coingecko_id \<mapsto> \<lparr>entry_p = usd, entry_t = now\<rparr>)))
        | None \<Rightarrow>
            (case fetch of
               Inl _ \<Rightarrow> (None, price_cache)
             | Inr usd \<Rightarrow> (Some usd, price_cache(coingecko_id \<mapsto> \<lparr>entry_p = usd, entry_t = now\<rparr>))))"

text \<open>\<open>x or 0\<close> for an optional float.\<close>

definition or_zero :: "real option \<Rightarrow> real" where
  "or_zero x = (case x of None \<Rightarrow> 0 | Some v \<Rightarrow> v)"

section \<open>EVM watcher: one resolved transaction\<close>

record EvmChainCfg =
  name :: string
  ws :: string
  http :: "string option"
  explorer :: string
  native_symbol :: string
  native_coingecko :: string
  routers :: "(string \<times> string) list"
  min_usd :: real
  min_native :: real
  whales :: "string set"

text \<open>
  The \<open>value\<close> field of a transaction: an int from Web3 (0 when the field is missing),
  a hex string from the raw JSON-RPC answer, or a value that \<open>Web3.from_wei\<close> rejects,
  such as \<open>None\<close>.
\<close>

datatype tx_value = WeiInt int | WeiStr string | WeiOther

text \<open>The \<open>input\<close> field: a str from the raw answer, bytes from Web3, or absent.\<close>

datatype tx_input = InputStr string | InputBytes bytes | InputNone

record evm_tx =
  tx_to :: "string option"
  tx_from :: "string option"
  tx_value :: tx_value
  tx_input :: tx_input

text \<open>
  \<open>routers_lc\<close>: lower-cased address to router name, as the list of the items the dict
  comprehension produces; a key produced twice keeps its last value.
\<close>

definition routers_lc :: "EvmChainCfg \<Rightarrow> (string \<times> string) list" where
  "routers_lc cfg = map (\<lambda>(nm, addr). (lower addr, nm)) (routers cfg)"

definition whales_lc :: "EvmChainCfg \<Rightarrow> string set" where
  "whales_lc cfg = lower ` whales cfg"

definition to_addr :: "evm_tx \<Rightarrow> string" where
  "to_addr tx = lower (or_empty (tx_to tx))"

definition frm :: "evm_tx \<Rightarrow> string" where
  "frm tx = lower (or_empty (tx_from tx))"

definition is_router :: "EvmChainCfg \<Rightarrow> evm_tx \<Rightarrow> bool" where
  "is_router cfg tx = (to_addr tx \<in> fst ` set (routers_lc cfg))"

text \<open>The try block computing \<open>value_native\<close>; any exception gives 0.0.\<close>

definition value_native :: "libs \<Rightarrow> evm_tx \<Rightarrow> real" where
  "value_native env tx =
     (case (case tx_value tx of
              WeiInt v \<Rightarrow> from_wei_ether env v
            | WeiStr s \<Rightarrow> bind (int_base16 env s) (from_wei_ether env)
            | WeiOther \<Rightarrow> Inl TypeError) of
        Inl _ \<Rightarrow> 0
      | Inr x \<Rightarrow> x)"

text \<open>\<open>est_usd = value_native * native_usd if native_usd else None\<close>\<close>

definition est_usd :: "libs \<Rightarrow> real \<Rightarrow> evm_tx \<Rightarrow> real option" where
  "est_usd env native_usd tx =
     (if native_usd \<noteq> 0 then Some (float_mul env (value_native env tx) native_usd)
      else None)"

definition swap_of :: "libs \<Rightarrow> EvmChainCfg \<Rightarrow> evm_tx \<Rightarrow> swap_info option" where
  "swap_of env cfg tx =
     (case tx_input tx of
        InputStr inp \<Rightarrow>
          if is_router cfg tx \<and> startswith inp ''0x'' \<and> length inp \<ge> 10 then
            (case bind (bytes_fromhex (drop 2 inp)) (parse_uniswap_call env) of
               Inl _ \<Rightarrow> None
             | Inr r \<Rightarrow> r)
          else None
      | _ \<Rightarrow> None)"

definition is_whale :: "EvmChainCfg \<Rightarrow> evm_tx \<Rightarrow> bool" where
  "is_whale cfg tx = (frm tx \<in> whales_lc cfg)"

definition big_native :: "libs \<Rightarrow> EvmChainCfg \<Rightarrow> evm_tx \<Rightarrow> bool" where
  "big_native env cfg tx = (value_native env tx \<ge> min_native cfg)"

definition big_usd :: "libs \<Rightarrow> EvmChainCfg \<Rightarrow> real \<Rightarrow> evm_tx \<Rightarrow> bool" where
  "big_usd env cfg native_usd tx = (or_zero (est_usd env native_usd tx) \<ge> min_usd cfg)"

text \<open>
  The embed sent to Discord. \<open>alert_usd\<close> is the figure shown by \<open>usd_str\<close>, \<open>None\<close> when
  \<open>usd_str\<close> is empty; \<open>alert_swap\<close> is the decoded swap whose method and output token the
  description shows.
\<close>

record alert =
  alert_url :: string
  alert_from :: string
  alert_to_name :: string
  alert_to :: string
  alert_value :: real
  alert_symbol :: string
  alert_usd :: "real option"
  alert_swap :: "swap_info option"
  alert_footer :: string

text \<open>
  The body of the loop of \<open>watch_evm\<close> from the resolved transaction to the alert:
  \<open>native_usd\<close> is the rate read when the watcher starts, \<open>tx = None\<close> an unresolved hash.
\<close>

definition watch_evm_tx ::
  "libs \<Rightarrow> EvmChainCfg \<Rightarrow> real \<Rightarrow> string \<Rightarrow> evm_tx option \<Rightarrow> alert option" where
  "watch_evm_tx env cfg native_usd tx_hash txo =
     (case txo of
        None \<Rightarrow> None
      | Some tx \<Rightarrow>
          if is_router cfg tx \<and>
             (is_whale cfg tx \<or> big_native env cfg tx \<or> big_usd env cfg native_usd tx
              \<or> swap_of env cfg tx \<noteq> None)
          then Some \<lparr>
            alert_url = explorer cfg @ tx_hash,
            alert_from = frm tx,
            alert_to_name =
              (case map_of (rev (routers_lc cfg)) (to_addr tx) of None \<Rightarrow> ''Router'' | Some n \<Rightarrow> n),
            alert_to = to_addr tx,
            alert_value = value_native env tx,
            alert_symbol = native_symbol cfg,
            alert_usd =
              (case est_usd env native_usd tx of
                 None \<Rightarrow> None
               | Some e \<Rightarrow> if e \<noteq> 0 then Some e else None),
            alert_swap = swap_of env cfg tx,
            alert_footer = tx_hash\<rparr>
          else None)"

text \<open>\<open>native_usd = get_native_usd(price_cache_id) or 0.0\<close>\<close>

definition native_usd_of :: "real option \<Rightarrow> real" where
  "native_usd_of lookup = or_zero lookup"

section \<open>Files\<close>

text \<open>
  A file holds a document (the parsed form of its JSON or YAML text) or text that the
  parser rejects. Opening a path of \<open>readonly\<close> for writing raises.
\<close>

datatype content = Doc pyobj | Broken

record fs =
  files :: "string \<rightharpoonup> content"
  readonly :: "string set"

text \<open>\<open>open(path, "r")\<close> followed by the parser.\<close>

definition read_doc :: "fs \<Rightarrow> string \<Rightarrow> py_error + pyobj" where
  "read_doc f path =
     (case files f path of
        None \<Rightarrow> Inl OSError
      | Some Broken \<Rightarrow> Inl ValueError
      | Some (Doc d) \<Rightarrow> Inr d)"

text \<open>\<open>open(path, "w")\<close> followed by the dump of a document.\<close>

definition write_doc :: "fs \<Rightarrow> string \<Rightarrow> pyobj \<Rightarrow> py_error + fs" where
  "write_doc f path d =
     (if path \<in> readonly f then Inl OSError
      else Inr (f\<lparr>files := (files f)(path \<mapsto> Doc d)\<rparr>))"

section \<open>Auto-learn\<close>

text \<open>
  The learning state \<open>{"counters": {...}, "day": ..., "added_today": ...}\<close>; the counters
  are the items of the dict, in insertion order.
\<close>

record WhaleCounterState =
  counters :: "(string \<times> real list) list"
  day :: string
  added_today :: int

text \<open>
  The fields of an \<open>AutoLearn\<close> object. \<open>learn_min_usd\<close> is the attribute \<open>min_usd\<close>
  (renamed apart from the chain configuration's field).
\<close>

record AutoLearn =
  enabled :: bool
  learn_min_usd :: real
  occurrences :: int
  window_hours :: int
  max_new_per_day :: int
  state_file :: string
  persist_to_config :: bool
  config_path :: string
  whales_set :: "string set"
  state :: WhaleCounterState

text \<open>The state as the document that \<open>json.dump\<close> writes.\<close>

definition state_doc :: "WhaleCounterState \<Rightarrow> pyobj" where
  "state_doc st =
     PDict [(''counters'', PDict (map (\<lambda>(a, ts). (a, PList (map PFloat ts))) (counters st))),
            (''day'', PStr (day st)),
            (''added_today'', PInt (added_today st))]"

text \<open>
  A document read back as a state: the three keys with a dict of lists of floats, a string
  and an int. \<open>None\<close> for a document of any other shape.
\<close>

fun floats_of :: "pyobj list \<Rightarrow> real list option" where
  "floats_of [] = Some []"
| "floats_of (PFloat x # vs) = map_option (Cons x) (floats_of vs)"
| "floats_of (_ # vs) = None"

fun counters_of :: "(string \<times> pyobj) list \<Rightarrow> (string \<times> real list) list option" where
  "counters_of [] = Some []"
| "counters_of ((a, PList vs) # items) =
     (case floats_of vs of
        None \<Rightarrow> None
      | Some ts \<Rightarrow> map_option (Cons (a, ts)) (counters_of items))"
| "counters_of (_ # items) = None"

definition doc_state :: "pyobj \<Rightarrow> WhaleCounterState option" where
  "doc_state d =
     (case d of
        PDict [(k1, PDict cs), (k2, PStr dy), (k3, PInt n)] \<Rightarrow>
          if k1 = ''counters'' \<and> k2 = ''day'' \<and> k3 = ''added_today'' then
            map_option (\<lambda>c. \<lparr>counters = c, day = dy, added_today = n\<rparr>) (counters_of cs)
          else None
      | _ \<Rightarrow> None)"

text \<open>
  What the constructor leaves in \<open>self.state\<close>: a state, or a loaded document of another
  shape (the constructor does not look at what it loads).
\<close>

datatype loaded = State WhaleCounterState | RawDoc pyobj

text \<open>
  Lines 160 to 167 of the constructor: the fresh state, replaced by the content of the
  state file when the file exists and parses; \<open>today\<close> is \<open>self._today()\<close>.
\<close>

definition load_state :: "fs \<Rightarrow> string \<Rightarrow> string \<Rightarrow> loaded" where
  "load_state f path today =
     (case files f path of
        None \<Rightarrow> State \<lparr>counters = [], day = today, added_today = 0\<rparr>
      | Some _ \<Rightarrow>
          (case read_doc f path of
             Inl _ \<Rightarrow> State \<lparr>counters = [], day = today, added_today = 0\<rparr>
           | Inr d \<Rightarrow> (case doc_state d of None \<Rightarrow> RawDoc d | Some st \<Rightarrow> State st)))"

text \<open>\<open>_save_state\<close>: an exception is printed and the file is left as it was.\<close>

definition save_state :: "AutoLearn \<Rightarrow> fs \<Rightarrow> fs" where
  "save_state al f =
     (case write_doc f (state_file al) (state_doc (state al)) of
        Inl _ \<Rightarrow> f
      | Inr f' \<Rightarrow> f')"

definition reset_day_if_needed :: "WhaleCounterState \<Rightarrow> string \<Rightarrow> WhaleCounterState" where
  "reset_day_if_needed st today =
     (if day st \<noteq> today then st\<lparr>day := today, added_today := 0\<rparr> else st)"

text \<open>\<open>a.lower()\<close> on an item of the list: AttributeError unless it is a str.\<close>

definition str_lower :: "pyobj \<Rightarrow> py_error + string" where
  "str_lower v = (case v of PStr s \<Rightarrow> Inr (lower s) | _ \<Rightarrow> Inl AttributeError)"

text \<open>
  The try block that rewrites the configuration (lines 210 to 220). Only a list takes
  the path through the comprehension and \<open>append\<close>: on any other value of \<open>whales_evm\<close>
  one of the two raises or the address is found, and nothing is written.
\<close>

definition persist_whale :: "fs \<Rightarrow> string \<Rightarrow> string \<Rightarrow> string \<Rightarrow> py_error + fs" where
  "persist_whale f path addr address =
     bind (read_doc f path) (\<lambda>loaded_doc.
     let cfg_full = (if truthy loaded_doc then loaded_doc else PDict []) in
     bind (dict_get cfg_full ''whales_evm'') (\<lambda>got.
     case (cfg_full, case got of None \<Rightarrow> PList [] | Some v \<Rightarrow> v) of
       (PDict items, PList lst) \<Rightarrow>
         bind (map_raise str_lower lst) (\<lambda>lowered.
           if addr \<notin> set lowered then
             write_doc f path
               (PDict (AList.update ''whales_evm'' (PList (lst @ [PStr address])) items))
           else Inr f)
     | _ \<Rightarrow> Inl TypeError))"

text \<open>The timestamps of \<open>addr\<close> that the pruning keeps, before \<open>now\<close> is appended.\<close>

definition pruned :: "AutoLearn \<Rightarrow> real \<Rightarrow> string \<Rightarrow> real list" where
  "pruned al now addr =
     filter (\<lambda>ts. now - ts \<le> real_of_int (window_hours al * 3600))
       (case map_of (counters (state al)) addr of None \<Rightarrow> [] | Some c \<Rightarrow> c)"

text \<open>
  The state after the pruning, the append of \<open>now\<close>, the store into the counters and
  \<open>_reset_day_if_needed\<close>.
\<close>

definition counted :: "AutoLearn \<Rightarrow> real \<Rightarrow> string \<Rightarrow> string \<Rightarrow> WhaleCounterState" where
  "counted al now today addr =
     reset_day_if_needed
       ((state al)\<lparr>counters :=
          AList.update addr (pruned al now addr @ [now]) (counters (state al))\<rparr>) today"

text \<open>
  The method \<open>consider\<close> of \<open>AutoLearn\<close>, with the two clock readings (\<open>now\<close> from
  \<open>time.time()\<close>, \<open>today\<close> from \<open>_today()\<close>) as arguments; it returns the result, the
  object and the files.
\<close>

definition AutoLearn_consider ::
  "AutoLearn \<Rightarrow> fs \<Rightarrow> real \<Rightarrow> string \<Rightarrow> string \<Rightarrow> real option
     \<Rightarrow> string option \<times> AutoLearn \<times> fs" where
  "AutoLearn_consider al f now today address usd =
     (if \<not> enabled al then (None, al, f)
      else
        let addr = lower address in
        if addr \<in> whales_set al then (None, al, f)
        else if or_zero usd < learn_min_usd al then (None, al, f)
        else
          let c = pruned al now addr @ [now];
              st = counted al now today addr
          in
            if int (length c) \<ge> occurrences al \<and> added_today st < max_new_per_day al then
              let al' = al\<lparr>whales_set := insert addr (whales_set al),
                           state := st\<lparr>added_today := added_today st + 1\<rparr>\<rparr>;
                  f' = (if persist_to_config al then
                          (case persist_whale f (config_path al) addr address of
                             Inl _ \<Rightarrow> f
                           | Inr g \<Rightarrow> g)
                        else f)
              in (Some address, al', save_state al' f')
            else
              let al' = al\<lparr>state := st\<rparr>
              in (None, al', save_state al' f))"

text \<open>
  A run of \<open>consider\<close> over events \<open>(now, today, address, est_usd)\<close>: the results in
  order, and the object and files after the last call.
\<close>

fun AutoLearn_consider_all ::
  "AutoLearn \<Rightarrow> fs \<Rightarrow> (real \<times> string \<times> string \<times> real option) list
     \<Rightarrow> string option list \<times> AutoLearn \<times> fs" where
  "AutoLearn_consider_all al f [] = ([], al, f)"
| "AutoLearn_consider_all al f ((now, today, address, usd) # evs) =
     (case AutoLearn_consider al f now today address usd of
        (r, al', f') \<Rightarrow>
          (case AutoLearn_consider_all al' f' evs of (rs, al'', f'') \<Rightarrow> (r # rs, al'', f'')))"

text \<open>The strings of \<open>cfg.get("whales_evm", [])\<close>.\<close>

definition whales_evm_of :: "pyobj \<Rightarrow> string list" where
  "whales_evm_of cfg =
     (case dict_get cfg ''whales_evm'' of
        Inr (Some (PList xs)) \<Rightarrow> concat (map (\<lambda>v. case v of PStr s \<Rightarrow> [s] | _ \<Rightarrow> []) xs)
      | _ \<Rightarrow> [])"

text \<open>
  The whale set that \<open>main\<close> hands to \<open>AutoLearn\<close> (line 482):
  \<open>set(cfg.get("whales_evm", []))\<close>.
\<close>

definition main_whales_set :: "pyobj \<Rightarrow> string set" where
  "main_whales_set cfg = set (whales_evm_of cfg)"

text \<open>
  The whale set that \<open>build_evm_cfgs\<close> gives every chain (line 407):
  \<open>set(a.lower() for a in c.get("whales_evm", []))\<close>.
\<close>

definition build_evm_whales :: "pyobj \<Rightarrow> string set" where
  "build_evm_whales c = set (map lower (whales_evm_of c))"

section \<open>Concrete instances\<close>

text \<open>
  An instance of the library functions for evaluating the definitions on concrete inputs:
  the selectors of the three methods as eight hexadecimal digits, a decoder that rejects
  its input, a formatter that prefixes \<open>0x\<close>, hexadecimal integers with an optional
  \<open>0x\<close>, wei to ether for amounts of at most 256 bits, and the exact product (the
  products of the examples below are whole numbers, which a double holds exactly).
\<close>

definition hex_int :: "string \<Rightarrow> py_error + int" where
  "hex_int s =
     (let body = (if startswith s ''0x'' then drop 2 s else s)
      in if body = [] \<or> \<not> list_all (\<lambda>c. digit_value c \<noteq> None) body then Inl ValueError
         else Inr (foldl (\<lambda>a c. a * 16 + int (case digit_value c of None \<Rightarrow> 0 | Some v \<Rightarrow> v))
                     0 body))"

definition example_libs :: libs where
  "example_libs =
     \<lparr>SIG_V2_SWAP_EXACT_ETH_FOR_TOKENS = ''7ff36ab5'',
      SIG_V2_SWAP_EXACT_TOKENS_FOR_TOKENS = ''38ed1739'',
      SIG_V3_EXACT_INPUT_SINGLE = ''414bf389'',
      abi_decode = (\<lambda>tys data. Inl ValueError),
      to_checksum_address = (\<lambda>s. Inr (''0x'' @ s)),
      int_base16 = hex_int,
      from_wei_ether =
        (\<lambda>v. if 0 \<le> v \<and> v < 2 ^ 256 then Inr (real_of_int v / 10 ^ 18)
             else Inl ValueError),
      float_mul = (\<lambda>x y. x * y)\<rparr>"

text \<open>A well-formed notification of a pending transaction, and the hash it carries.\<close>

definition example_hash :: string where
  "example_hash = ''0x'' @ replicate 64 (CHR ''a'')"

definition example_notification :: raw_msg where
  "example_notification =
     Text (PDict [(''jsonrpc'', PStr ''2.0''), (''method'', PStr ''eth_subscription''),
                  (''params'', PDict [(''subscription'', PStr ''0x1''),
                                      (''result'', PStr example_hash)])])"

text \<open>
  A chain configuration with one router and the default thresholds, the same with the
  fiat threshold set to 0, and three transactions: 10 ETH to the router, 1000 ETH to
  another address, 1 ETH to the router.
\<close>

definition example_cfg :: EvmChainCfg where
  "example_cfg =
     \<lparr>name = ''ethereum'', ws = ''wss://node.example'', http = Some ''https://node.example'',
      explorer = ''https://etherscan.io/tx/'', native_symbol = ''ETH'',
      native_coingecko = ''ethereum'',
      routers = [(''UniswapV2'', ''0x7a250d5630B4cF539739dF2C5dAcb4c659F2488D'')],
      min_usd = 50000, min_native = 10, whales = {}\<rparr>"

definition zero_usd_cfg :: EvmChainCfg where
  "zero_usd_cfg = example_cfg\<lparr>min_usd := 0\<rparr>"

definition tx_router_10 :: evm_tx where
  "tx_router_10 =
     \<lparr>tx_to = Some ''0x7a250d5630B4cF539739dF2C5dAcb4c659F2488D'',
      tx_from = Some ''0x00000000000000000000000000000000000000A1'',
      tx_value = WeiInt 10000000000000000000, tx_input = InputNone\<rparr>"

definition tx_other_1000 :: evm_tx where
  "tx_other_1000 =
     \<lparr>tx_to = Some ''0x00000000000000000000000000000000000000B2'',
      tx_from = Some ''0x00000000000000000000000000000000000000A1'',
      tx_value = WeiInt 1000000000000000000000, tx_input = InputNone\<rparr>"

definition tx_router_1 :: evm_tx where
  "tx_router_1 =
     \<lparr>tx_to = Some ''0x7a250d5630B4cF539739dF2C5dAcb4c659F2488D'',
      tx_from = Some ''0x00000000000000000000000000000000000000A1'',
      tx_value = WeiStr ''0xde0b6b3a7640000'', tx_input = InputStr ''0x''\<rparr>"

text \<open>
  A learner with the default settings and a fresh state, an empty file system, and the
  same learner with the day's quota used up.
\<close>

definition example_learner :: AutoLearn where
  "example_learner =
     \<lparr>enabled = True, learn_min_usd = 250000, occurrences = 3, window_hours = 24,
      max_new_per_day = 5, state_file = ''autolearn_state.json'', persist_to_config = True,
      config_path = ''config.yaml'', whales_set = {},
      state = \<lparr>counters = [], day = ''2024-05-01'', added_today = 0\<rparr>\<rparr>"

definition no_files :: fs where
  "no_files = \<lparr>files = Map.empty, readonly = {}\<rparr>"

definition full_quota_learner :: AutoLearn where
  "full_quota_learner =
     example_learner\<lparr>state := \<lparr>counters = [(''0xa1'', [100, 200])], day = ''2024-05-01'',
                                added_today = 5\<rparr>\<rparr>"

text \<open>Three qualifying events of one address on one day.\<close>

definition three_events :: "(real \<times> string \<times> string \<times> real option) list" where
  "three_events =
     [(300, ''2024-05-01'', ''0xa1'', Some 300000),
      (400, ''2024-05-01'', ''0xa1'', Some 300000),
      (500, ''2024-05-01'', ''0xa1'', Some 300000)]"

text \<open>
  A learner that promotes at the first qualifying event, and files with a configuration
  holding one whale and the thresholds.
\<close>

definition eager_learner :: AutoLearn where
  "eager_learner = example_learner\<lparr>occurrences := 1\<rparr>"

definition config_items :: "(string \<times> pyobj) list" where
  "config_items =
     [(''whales_evm'', PList [PStr ''0xB2'']),
      (''thresholds'', PDict [(''min_usd'', PFloat 50000), (''min_native'', PFloat 10)]),
      (''autolearn'', PDict [(''enabled'', PBool True), (''occurrences'', PInt 1)])]"

definition config_files :: fs where
  "config_files = \<lparr>files = [''config.yaml'' \<mapsto> Doc (PDict config_items)], readonly = {}\<rparr>"



text \<open>
  A configuration that lists a whale in mixed case, and the learner that \<open>main\<close> builds
  from it with the default settings.
\<close>

definition mixed_case_config :: pyobj where
  "mixed_case_config =
     PDict [(''whales_evm'', PList [PStr ''0xA1'']),
            (''autolearn'', PDict [(''enabled'', PBool True)])]"

definition main_learner :: AutoLearn where
  "main_learner = example_learner\<lparr>whales_set := main_whales_set mixed_case_config\<rparr>"

text \<open>A transfer of nothing to the router, with no input.\<close>

definition tx_router_zero :: evm_tx where
  "tx_router_zero =
     \<lparr>tx_to = Some ''0x7a250d5630B4cF539739dF2C5dAcb4c659F2488D'',
      tx_from = Some ''0x00000000000000000000000000000000000000A1'',
      tx_value = WeiInt 0, tx_input = InputNone\<rparr>"

text \<open>A price cache whose entry for \<open>ethereum\<close> was stored at time 0.\<close>

definition old_price_cache :: "string \<rightharpoonup> price_entry" where
  "old_price_cache = [''ethereum'' \<mapsto> \<lparr>entry_p = 1234, entry_t = 0\<rparr>]"

text \<open>
  The libraries with a decoder that rejects empty argument data and otherwise returns
  four values: bytes, a list of two byte strings, an empty list and an int.
\<close>

definition decoding_libs :: libs where
  "decoding_libs =
     example_libs\<lparr>abi_decode :=
       (\<lambda>tys data. if data = [] then Inl ValueError
          else Inr [ABytes [0x11], ATuple [ABytes [0xaa], ABytes [0xbb]], ATuple [], AInt 5])\<rparr>"




section \<open>Swap decoding never raises\<close>

lemma hex_digit_value:
  assumes "n < 16"
  shows "digit_value (hex_digit n) = Some n \<and> \<not> isspace (hex_digit n)"
proof -
  have "\<forall>k\<in>set [0..<16]. digit_value (hex_digit k) = Some k \<and> \<not> isspace (hex_digit k)"
    by (simp add: upt_rec hex_digit_def digit_value_def isspace_def)
  with assms show ?thesis by simp
qed

lemma byte_of_digits: "(of_nat (unat b div 16 * 16 + unat b mod 16) :: 8 word) = b"
  by simp

text \<open>\<open>bytes.fromhex(data.hex())\<close> gives \<open>data\<close> back and does not raise.\<close>

lemma fromhex_hex: "bytes_fromhex (bytes_hex bs) = Inr bs"
proof (induction bs)
  case Nil
  then show ?case by (simp add: bytes_hex_def)
next
  case (Cons b bs)
  have hi: "unat b div 16 < 16"
  proof -
    have "unat b < 2 ^ LENGTH(8)" by (rule unsigned_less)
    then have "unat b < 256" by simp
    then show ?thesis by arith
  qed
  have lo: "unat b mod 16 < 16" by simp
  have step: "bytes_hex (b # bs) =
      hex_digit (unat b div 16) # hex_digit (unat b mod 16) # bytes_hex bs"
    by (simp add: bytes_hex_def)
  show ?case
    using Cons hex_digit_value [OF hi] hex_digit_value [OF lo]
    by (simp add: step byte_of_digits del: of_nat_add of_nat_mult)
qed

lemma try_or_None_Inr: "\<exists>r. try_or_None m = Inr r"
  by (cases m) (simp_all add: try_or_None_def)

lemma try_or_None_Some: "m = Inr d \<Longrightarrow> try_or_None m = Inr (Some d)"
  by (simp add: try_or_None_def)

lemma try_or_None_None: "\<forall>d. m \<noteq> Inr d \<Longrightarrow> try_or_None m = Inr None"
  by (cases m) (simp_all add: try_or_None_def)

text \<open>The comprehension succeeds exactly when its expression succeeds on every item.\<close>

lemma map_raise_Inr_iff:
  "map_raise f xs = Inr ys \<longleftrightarrow> list_all2 (\<lambda>x y. f x = Inr y) xs ys"
proof (induction xs arbitrary: ys)
  case Nil
  then show ?case by auto
next
  case (Cons x xs)
  show ?case
  proof (cases "f x")
    case (Inl e)
    then show ?thesis by (auto simp: bind_def list_all2_Cons1)
  next
    case fx: (Inr y)
    show ?thesis
    proof (cases "map_raise f xs")
      case (Inl e)
      with Cons [of "tl ys"] fx show ?thesis
        by (auto simp: bind_def list_all2_Cons1)
    next
      case (Inr zs)
      with Cons fx show ?thesis
        by (auto simp: bind_def list_all2_Cons1)
    qed
  qed
qed

text \<open>\<open>Web3.to_checksum_address(p.hex())\<close> succeeds only on bytes.\<close>

lemma checksum_of_Inr_iff:
  "checksum_of env p = Inr c \<longleftrightarrow>
     (\<exists>bs. p = ABytes bs \<and> to_checksum_address env (bytes_hex bs) = Inr c)"
  by (cases p) (simp_all add: checksum_of_def py_hex_def bind_def)

lemma all_checksums_bytes:
  assumes "list_all2 (\<lambda>p c. checksum_of env p = Inr c) ps path"
  shows "\<exists>bss. ps = map ABytes bss \<and>
    list_all2 (\<lambda>b c. to_checksum_address env (bytes_hex b) = Inr c) bss path"
  using assms
proof (induction rule: list_all2_induct)
  case Nil
  then show ?case by simp
next
  case (Cons p ps c path)
  from Cons.hyps(1) obtain bs where p: "p = ABytes bs"
    and c: "to_checksum_address env (bytes_hex bs) = Inr c"
    by (auto simp: checksum_of_Inr_iff)
  from Cons.IH obtain bss where "ps = map ABytes bss"
    and "list_all2 (\<lambda>b c. to_checksum_address env (bytes_hex b) = Inr c) bss path"
    by blast
  with p c have "p # ps = map ABytes (bs # bss) \<and>
      list_all2 (\<lambda>b c. to_checksum_address env (bytes_hex b) = Inr c) (bs # bss) (c # path)"
    by simp
  then show ?case by (rule exI [where x = "bs # bss"])
qed

lemma checksums_of_bytes:
  "list_all2 (\<lambda>p c. checksum_of env p = Inr c) (map ABytes bss) path \<longleftrightarrow>
   list_all2 (\<lambda>b c. to_checksum_address env (bytes_hex b) = Inr c) bss path"
  by (simp add: list_all2_map1 checksum_of_Inr_iff)

text \<open>Only a tuple or list gives items that are all bytes, unless there is no item.\<close>

lemma py_iter_bytes_items:
  assumes "py_iter v = Inr (map ABytes bss)" and "bss \<noteq> []"
  shows "v = ATuple (map ABytes bss)"
proof (cases v)
  case (AInt n)
  with assms show ?thesis by (simp add: py_iter_def)
next
  case (ABytes bs)
  with assms show ?thesis by (cases bs; cases bss) (simp_all add: py_iter_def)
next
  case (AStr s)
  with assms show ?thesis by (cases s; cases bss) (simp_all add: py_iter_def)
next
  case (ATuple xs)
  with assms show ?thesis by (simp add: py_iter_def)
qed

text \<open>
  The try block of a V2 branch returns a descriptor exactly when the decoder returns
  values, the value at the path's position is a non-empty list of byte strings, and the
  checksum formatter accepts every one of them.
\<close>

lemma decode_v2_Inr_iff:
  "decode_v2 env tys i meth data = Inr d \<longleftrightarrow>
     (\<exists>vals bss path.
        abi_decode env tys data = Inr vals \<and> i < length vals \<and>
        vals ! i = ATuple (map ABytes bss) \<and> bss \<noteq> [] \<and>
        list_all2 (\<lambda>b c. to_checksum_address env (bytes_hex b) = Inr c) bss path \<and>
        d = \<lparr>swap_dex = ''V2'', swap_method = meth, token_in = hd path,
             token_out = last path\<rparr>)"
proof
  assume ok: "decode_v2 env tys i meth data = Inr d"
  then obtain vals where dec: "abi_decode env tys data = Inr vals"
    by (cases "abi_decode env tys data") (simp_all add: decode_v2_def bind_def fromhex_hex)
  from ok dec have i: "i < length vals"
    by (simp add: decode_v2_def bind_def fromhex_hex py_index_def split: if_splits)
  from ok dec i obtain ps where it: "py_iter (vals ! i) = Inr ps"
    by (cases "py_iter (vals ! i)")
      (simp_all add: decode_v2_def bind_def fromhex_hex py_index_def)
  from ok dec i it obtain path where mr: "map_raise (checksum_of env) ps = Inr path"
    by (cases "map_raise (checksum_of env) ps")
      (simp_all add: decode_v2_def bind_def fromhex_hex py_index_def)
  from ok dec i it mr have ne: "path \<noteq> []"
    and d: "d = \<lparr>swap_dex = ''V2'', swap_method = meth, token_in = hd path,
                 token_out = last path\<rparr>"
    by (auto simp: decode_v2_def bind_def fromhex_hex py_index_def py_last_def hd_conv_nth
        split: if_splits)
  from mr have "list_all2 (\<lambda>p c. checksum_of env p = Inr c) ps path"
    by (simp add: map_raise_Inr_iff)
  then obtain bss where ps: "ps = map ABytes bss"
    and cs: "list_all2 (\<lambda>b c. to_checksum_address env (bytes_hex b) = Inr c) bss path"
    using all_checksums_bytes by blast
  from cs ne have bne: "bss \<noteq> []" by auto
  have "vals ! i = ATuple (map ABytes bss)"
    using it ps bne by (simp add: py_iter_bytes_items)
  with dec i bne cs d show "\<exists>vals bss path.
        abi_decode env tys data = Inr vals \<and> i < length vals \<and>
        vals ! i = ATuple (map ABytes bss) \<and> bss \<noteq> [] \<and>
        list_all2 (\<lambda>b c. to_checksum_address env (bytes_hex b) = Inr c) bss path \<and>
        d = \<lparr>swap_dex = ''V2'', swap_method = meth, token_in = hd path,
             token_out = last path\<rparr>"
    by blast
next
  assume "\<exists>vals bss path.
        abi_decode env tys data = Inr vals \<and> i < length vals \<and>
        vals ! i = ATuple (map ABytes bss) \<and> bss \<noteq> [] \<and>
        list_all2 (\<lambda>b c. to_checksum_address env (bytes_hex b) = Inr c) bss path \<and>
        d = \<lparr>swap_dex = ''V2'', swap_method = meth, token_in = hd path,
             token_out = last path\<rparr>"
  then obtain vals bss path where dec: "abi_decode env tys data = Inr vals"
    and i: "i < length vals" and v: "vals ! i = ATuple (map ABytes bss)"
    and bne: "bss \<noteq> []"
    and cs: "list_all2 (\<lambda>b c. to_checksum_address env (bytes_hex b) = Inr c) bss path"
    and d: "d = \<lparr>swap_dex = ''V2'', swap_method = meth, token_in = hd path,
                 token_out = last path\<rparr>"
    by blast
  from cs have mr: "map_raise (checksum_of env) (map ABytes bss) = Inr path"
    by (simp add: map_raise_Inr_iff checksums_of_bytes)
  from cs bne have ne: "path \<noteq> []" by auto
  show "decode_v2 env tys i meth data = Inr d"
    using dec i v mr ne d
    by (simp add: decode_v2_def bind_def fromhex_hex py_index_def py_last_def py_iter_def
        hd_conv_nth)
qed

text \<open>
  The try block of the V3 branch returns a descriptor exactly when the decoder returns
  at least two values, the first two are byte strings, and the checksum formatter accepts
  both.
\<close>

lemma decode_v3_Inr_iff:
  "decode_v3 env data = Inr d \<longleftrightarrow>
     (\<exists>vals a b t_in t_out.
        abi_decode env [''address'', ''address'', ''uint24'', ''address'',
                        ''uint256'', ''uint256'', ''uint256'', ''uint160''] data = Inr vals \<and>
        1 < length vals \<and> vals ! 0 = ABytes a \<and> vals ! 1 = ABytes b \<and>
        to_checksum_address env (bytes_hex a) = Inr t_in \<and>
        to_checksum_address env (bytes_hex b) = Inr t_out \<and>
        d = \<lparr>swap_dex = ''V3'', swap_method = ''exactInputSingle'',
             token_in = t_in, token_out = t_out\<rparr>)"
proof
  let ?tys = "[''address'', ''address'', ''uint24'', ''address'',
               ''uint256'', ''uint256'', ''uint256'', ''uint160'']"
  assume ok: "decode_v3 env data = Inr d"
  then obtain vals where dec: "abi_decode env ?tys data = Inr vals"
    by (cases "abi_decode env ?tys data") (simp_all add: decode_v3_def bind_def fromhex_hex)
  from ok dec have l0: "0 < length vals"
    by (simp add: decode_v3_def bind_def fromhex_hex py_index_def split: if_splits)
  from ok dec l0 obtain t_in where c0: "checksum_of env (vals ! 0) = Inr t_in"
    by (cases "checksum_of env (vals ! 0)")
      (simp_all add: decode_v3_def bind_def fromhex_hex py_index_def)
  from ok dec l0 c0 have l1: "1 < length vals"
    by (simp add: decode_v3_def bind_def fromhex_hex py_index_def split: if_splits)
  from ok dec l0 c0 l1 obtain t_out where c1: "checksum_of env (vals ! 1) = Inr t_out"
    by (cases "checksum_of env (vals ! 1)")
      (simp_all add: decode_v3_def bind_def fromhex_hex py_index_def)
  from ok dec l0 c0 l1 c1 have d: "d = \<lparr>swap_dex = ''V3'', swap_method = ''exactInputSingle'',
      token_in = t_in, token_out = t_out\<rparr>"
    by (simp add: decode_v3_def bind_def fromhex_hex py_index_def)
  from c0 obtain a where a: "vals ! 0 = ABytes a"
    "to_checksum_address env (bytes_hex a) = Inr t_in"
    by (auto simp: checksum_of_Inr_iff)
  from c1 obtain b where b: "vals ! 1 = ABytes b"
    "to_checksum_address env (bytes_hex b) = Inr t_out"
    by (auto simp: checksum_of_Inr_iff)
  from dec l1 a b d show "\<exists>vals a b t_in t_out.
        abi_decode env ?tys data = Inr vals \<and>
        1 < length vals \<and> vals ! 0 = ABytes a \<and> vals ! 1 = ABytes b \<and>
        to_checksum_address env (bytes_hex a) = Inr t_in \<and>
        to_checksum_address env (bytes_hex b) = Inr t_out \<and>
        d = \<lparr>swap_dex = ''V3'', swap_method = ''exactInputSingle'',
             token_in = t_in, token_out = t_out\<rparr>"
    by blast
next
  let ?tys = "[''address'', ''address'', ''uint24'', ''address'',
               ''uint256'', ''uint256'', ''uint256'', ''uint160'']"
  assume "\<exists>vals a b t_in t_out.
        abi_decode env ?tys data = Inr vals \<and>
        1 < length vals \<and> vals ! 0 = ABytes a \<and> vals ! 1 = ABytes b \<and>
        to_checksum_address env (bytes_hex a) = Inr t_in \<and>
        to_checksum_address env (bytes_hex b) = Inr t_out \<and>
        d = \<lparr>swap_dex = ''V3'', swap_method = ''exactInputSingle'',
             token_in = t_in, token_out = t_out\<rparr>"
  then obtain vals a b t_in t_out where dec: "abi_decode env ?tys data = Inr vals"
    and l1: "1 < length vals" and a: "vals ! 0 = ABytes a" and b: "vals ! 1 = ABytes b"
    and ca: "to_checksum_address env (bytes_hex a) = Inr t_in"
    and cb: "to_checksum_address env (bytes_hex b) = Inr t_out"
    and d: "d = \<lparr>swap_dex = ''V3'', swap_method = ''exactInputSingle'',
                 token_in = t_in, token_out = t_out\<rparr>"
    by blast
  from l1 have l0: "0 < length vals" by (cases vals) simp_all
  have i0: "py_index vals 0 = Inr (ABytes a)"
    using l0 a unfolding py_index_def by simp
  have i1: "py_index vals (Suc 0) = Inr (ABytes b)"
    using l1 b unfolding py_index_def by simp
  have c0: "checksum_of env (ABytes a) = Inr t_in" and c1: "checksum_of env (ABytes b) = Inr t_out"
    using ca cb by (simp_all add: checksum_of_def py_hex_def bind_def)
  show "decode_v3 env data = Inr d"
    unfolding decode_v3_def by (simp add: bind_def fromhex_hex dec i0 i1 c0 c1 d)
qed

text \<open>Which try block a recognised selector leads to.\<close>

lemma parse_branch_v2_eth:
  assumes "4 \<le> length input_data"
    and "bytes_hex (take 4 input_data) = SIG_V2_SWAP_EXACT_ETH_FOR_TOKENS env"
  shows "parse_uniswap_call env input_data =
    try_or_None (decode_v2 env [''uint256'', ''address[]'', ''address'', ''uint256'']
                   1 ''swapExactETHForTokens'' (drop 4 input_data))"
  using assms by (simp add: parse_uniswap_call_def Let_def)

lemma parse_branch_v2_tokens:
  assumes "4 \<le> length input_data"
    and "bytes_hex (take 4 input_data) \<noteq> SIG_V2_SWAP_EXACT_ETH_FOR_TOKENS env"
    and "bytes_hex (take 4 input_data) = SIG_V2_SWAP_EXACT_TOKENS_FOR_TOKENS env"
  shows "parse_uniswap_call env input_data =
    try_or_None (decode_v2 env
                   [''uint256'', ''uint256'', ''address[]'', ''address'', ''uint256'']
                   2 ''swapExactTokensForTokens'' (drop 4 input_data))"
  using assms by (simp add: parse_uniswap_call_def Let_def)

lemma parse_branch_v3:
  assumes "4 \<le> length input_data"
    and "bytes_hex (take 4 input_data) \<noteq> SIG_V2_SWAP_EXACT_ETH_FOR_TOKENS env"
    and "bytes_hex (take 4 input_data) \<noteq> SIG_V2_SWAP_EXACT_TOKENS_FOR_TOKENS env"
    and "bytes_hex (take 4 input_data) = SIG_V3_EXACT_INPUT_SINGLE env"
  shows "parse_uniswap_call env input_data = try_or_None (decode_v3 env (drop 4 input_data))"
  using assms by (simp add: parse_uniswap_call_def Let_def)

text \<open>
  C5. For every byte string, \<open>parse_uniswap_call\<close> returns a value and raises nothing,
  whatever the selectors, the decoder and the checksum formatter do. It returns \<open>None\<close>
  when the input has fewer than 4 bytes and when its first 4 bytes are none of the three
  selectors. Under a recognised selector it returns a descriptor in exactly one case and
  \<open>None\<close> in every other, that is whenever anything in the decode fails. For the two V2
  methods the one case is: the decoder, called with the method's types, returns values;
  there is a value at the path's position (1 or 2); it is a non-empty list of byte
  strings; the checksum formatter accepts each of them. The descriptor then names the
  first and the last formatted address. So a decoder that raises, too few values, a path
  that is no list, an empty path, an item that is not bytes and a formatter that raises
  all give \<open>None\<close>. For \<open>exactInputSingle\<close> the one case is: the decoder returns at
  least two values, the first two are byte strings and the formatter accepts both.
\<close>

theorem parse_uniswap_call_never_raises:
  "(\<exists>r. parse_uniswap_call env input_data = Inr r) \<and>
   (length input_data < 4 \<or>
    bytes_hex (take 4 input_data) \<notin>
      {SIG_V2_SWAP_EXACT_ETH_FOR_TOKENS env, SIG_V2_SWAP_EXACT_TOKENS_FOR_TOKENS env,
       SIG_V3_EXACT_INPUT_SINGLE env}
    \<longrightarrow> parse_uniswap_call env input_data = Inr None) \<and>
   (4 \<le> length input_data \<and>
    ((bytes_hex (take 4 input_data) = SIG_V2_SWAP_EXACT_ETH_FOR_TOKENS env \<and>
      tys = [''uint256'', ''address[]'', ''address'', ''uint256''] \<and> i = 1 \<and>
      meth = ''swapExactETHForTokens'') \<or>
     (bytes_hex (take 4 input_data) \<noteq> SIG_V2_SWAP_EXACT_ETH_FOR_TOKENS env \<and>
      bytes_hex (take 4 input_data) = SIG_V2_SWAP_EXACT_TOKENS_FOR_TOKENS env \<and>
      tys = [''uint256'', ''uint256'', ''address[]'', ''address'', ''uint256''] \<and> i = 2 \<and>
      meth = ''swapExactTokensForTokens''))
    \<longrightarrow>
      (abi_decode env tys (drop 4 input_data) = Inr vals \<and> i < length vals \<and>
       vals ! i = ATuple (map ABytes bss) \<and> bss \<noteq> [] \<and>
       list_all2 (\<lambda>b c. to_checksum_address env (bytes_hex b) = Inr c) bss path
       \<longrightarrow> parse_uniswap_call env input_data =
             Inr (Some \<lparr>swap_dex = ''V2'', swap_method = meth, token_in = hd path,
                        token_out = last path\<rparr>)) \<and>
      (\<not> (\<exists>vs bs cs.
             abi_decode env tys (drop 4 input_data) = Inr vs \<and> i < length vs \<and>
             vs ! i = ATuple (map ABytes bs) \<and> bs \<noteq> [] \<and>
             list_all2 (\<lambda>b c. to_checksum_address env (bytes_hex b) = Inr c) bs cs)
       \<longrightarrow> parse_uniswap_call env input_data = Inr None)) \<and>
   (4 \<le> length input_data \<and>
    bytes_hex (take 4 input_data) \<noteq> SIG_V2_SWAP_EXACT_ETH_FOR_TOKENS env \<and>
    bytes_hex (take 4 input_data) \<noteq> SIG_V2_SWAP_EXACT_TOKENS_FOR_TOKENS env \<and>
    bytes_hex (take 4 input_data) = SIG_V3_EXACT_INPUT_SINGLE env
    \<longrightarrow>
      (abi_decode env [''address'', ''address'', ''uint24'', ''address'',
                       ''uint256'', ''uint256'', ''uint256'', ''uint160'']
         (drop 4 input_data) = Inr vals \<and>
       1 < length vals \<and> vals ! 0 = ABytes a \<and> vals ! 1 = ABytes b \<and>
       to_checksum_address env (bytes_hex a) = Inr t_in \<and>
       to_checksum_address env (bytes_hex b) = Inr t_out
       \<longrightarrow> parse_uniswap_call env input_data =
             Inr (Some \<lparr>swap_dex = ''V3'', swap_method = ''exactInputSingle'',
                        token_in = t_in, token_out = t_out\<rparr>)) \<and>
      (\<not> (\<exists>vs x y cx cy.
             abi_decode env [''address'', ''address'', ''uint24'', ''address'',
                             ''uint256'', ''uint256'', ''uint256'', ''uint160'']
               (drop 4 input_data) = Inr vs \<and>
             1 < length vs \<and> vs ! 0 = ABytes x \<and> vs ! 1 = ABytes y \<and>
             to_checksum_address env (bytes_hex x) = Inr cx \<and>
             to_checksum_address env (bytes_hex y) = Inr cy)
       \<longrightarrow> parse_uniswap_call env input_data = Inr None))"
proof (intro conjI)
  show "\<exists>r. parse_uniswap_call env input_data = Inr r"
    by (simp add: parse_uniswap_call_def Let_def try_or_None_Inr)
next
  show "length input_data < 4 \<or>
    bytes_hex (take 4 input_data) \<notin>
      {SIG_V2_SWAP_EXACT_ETH_FOR_TOKENS env, SIG_V2_SWAP_EXACT_TOKENS_FOR_TOKENS env,
       SIG_V3_EXACT_INPUT_SINGLE env}
    \<longrightarrow> parse_uniswap_call env input_data = Inr None"
    by (auto simp: parse_uniswap_call_def Let_def)
next
  show "4 \<le> length input_data \<and>
    ((bytes_hex (take 4 input_data) = SIG_V2_SWAP_EXACT_ETH_FOR_TOKENS env \<and>
      tys = [''uint256'', ''address[]'', ''address'', ''uint256''] \<and> i = 1 \<and>
      meth = ''swapExactETHForTokens'') \<or>
     (bytes_hex (take 4 input_data) \<noteq> SIG_V2_SWAP_EXACT_ETH_FOR_TOKENS env \<and>
      bytes_hex (take 4 input_data) = SIG_V2_SWAP_EXACT_TOKENS_FOR_TOKENS env \<and>
      tys = [''uint256'', ''uint256'', ''address[]'', ''address'', ''uint256''] \<and> i = 2 \<and>
      meth = ''swapExactTokensForTokens''))
    \<longrightarrow>
      (abi_decode env tys (drop 4 input_data) = Inr vals \<and> i < length vals \<and>
       vals ! i = ATuple (map ABytes bss) \<and> bss \<noteq> [] \<and>
       list_all2 (\<lambda>b c. to_checksum_address env (bytes_hex b) = Inr c) bss path
       \<longrightarrow> parse_uniswap_call env input_data =
             Inr (Some \<lparr>swap_dex = ''V2'', swap_method = meth, token_in = hd path,
                        token_out = last path\<rparr>)) \<and>
      (\<not> (\<exists>vs bs cs.
             abi_decode env tys (drop 4 input_data) = Inr vs \<and> i < length vs \<and>
             vs ! i = ATuple (map ABytes bs) \<and> bs \<noteq> [] \<and>
             list_all2 (\<lambda>b c. to_checksum_address env (bytes_hex b) = Inr c) bs cs)
       \<longrightarrow> parse_uniswap_call env input_data = Inr None)"
  proof (intro impI)
    assume br: "4 \<le> length input_data \<and>
      ((bytes_hex (take 4 input_data) = SIG_V2_SWAP_EXACT_ETH_FOR_TOKENS env \<and>
        tys = [''uint256'', ''address[]'', ''address'', ''uint256''] \<and> i = 1 \<and>
        meth = ''swapExactETHForTokens'') \<or>
       (bytes_hex (take 4 input_data) \<noteq> SIG_V2_SWAP_EXACT_ETH_FOR_TOKENS env \<and>
        bytes_hex (take 4 input_data) = SIG_V2_SWAP_EXACT_TOKENS_FOR_TOKENS env \<and>
        tys = [''uint256'', ''uint256'', ''address[]'', ''address'', ''uint256''] \<and> i = 2 \<and>
        meth = ''swapExactTokensForTokens''))"
    then have p: "parse_uniswap_call env input_data =
        try_or_None (decode_v2 env tys i meth (drop 4 input_data))"
      using parse_branch_v2_eth [of input_data env]
        parse_branch_v2_tokens [of input_data env] by auto
    show "(abi_decode env tys (drop 4 input_data) = Inr vals \<and> i < length vals \<and>
       vals ! i = ATuple (map ABytes bss) \<and> bss \<noteq> [] \<and>
       list_all2 (\<lambda>b c. to_checksum_address env (bytes_hex b) = Inr c) bss path
       \<longrightarrow> parse_uniswap_call env input_data =
             Inr (Some \<lparr>swap_dex = ''V2'', swap_method = meth, token_in = hd path,
                        token_out = last path\<rparr>)) \<and>
      (\<not> (\<exists>vs bs cs.
             abi_decode env tys (drop 4 input_data) = Inr vs \<and> i < length vs \<and>
             vs ! i = ATuple (map ABytes bs) \<and> bs \<noteq> [] \<and>
             list_all2 (\<lambda>b c. to_checksum_address env (bytes_hex b) = Inr c) bs cs)
       \<longrightarrow> parse_uniswap_call env input_data = Inr None)"
    proof (intro conjI impI)
      assume "abi_decode env tys (drop 4 input_data) = Inr vals \<and> i < length vals \<and>
        vals ! i = ATuple (map ABytes bss) \<and> bss \<noteq> [] \<and>
        list_all2 (\<lambda>b c. to_checksum_address env (bytes_hex b) = Inr c) bss path"
      then have "decode_v2 env tys i meth (drop 4 input_data) =
          Inr \<lparr>swap_dex = ''V2'', swap_method = meth, token_in = hd path,
               token_out = last path\<rparr>"
        unfolding decode_v2_Inr_iff by blast
      then show "parse_uniswap_call env input_data =
          Inr (Some \<lparr>swap_dex = ''V2'', swap_method = meth, token_in = hd path,
                     token_out = last path\<rparr>)"
        by (simp add: p try_or_None_Some)
    next
      assume "\<not> (\<exists>vs bs cs.
          abi_decode env tys (drop 4 input_data) = Inr vs \<and> i < length vs \<and>
          vs ! i = ATuple (map ABytes bs) \<and> bs \<noteq> [] \<and>
          list_all2 (\<lambda>b c. to_checksum_address env (bytes_hex b) = Inr c) bs cs)"
      then have "\<forall>d. decode_v2 env tys i meth (drop 4 input_data) \<noteq> Inr d"
        unfolding decode_v2_Inr_iff by blast
      then show "parse_uniswap_call env input_data = Inr None"
        by (simp add: p try_or_None_None)
    qed
  qed
next
  show "4 \<le> length input_data \<and>
    bytes_hex (take 4 input_data) \<noteq> SIG_V2_SWAP_EXACT_ETH_FOR_TOKENS env \<and>
    bytes_hex (take 4 input_data) \<noteq> SIG_V2_SWAP_EXACT_TOKENS_FOR_TOKENS env \<and>
    bytes_hex (take 4 input_data) = SIG_V3_EXACT_INPUT_SINGLE env
    \<longrightarrow>
      (abi_decode env [''address'', ''address'', ''uint24'', ''address'',
                       ''uint256'', ''uint256'', ''uint256'', ''uint160'']
         (drop 4 input_data) = Inr vals \<and>
       1 < length vals \<and> vals ! 0 = ABytes a \<and> vals ! 1 = ABytes b \<and>
       to_checksum_address env (bytes_hex a) = Inr t_in \<and>
       to_checksum_address env (bytes_hex b) = Inr t_out
       \<longrightarrow> parse_uniswap_call env input_data =
             Inr (Some \<lparr>swap_dex = ''V3'', swap_method = ''exactInputSingle'',
                        token_in = t_in, token_out = t_out\<rparr>)) \<and>
      (\<not> (\<exists>vs x y cx cy.
             abi_decode env [''address'', ''address'', ''uint24'', ''address'',
                             ''uint256'', ''uint256'', ''uint256'', ''uint160'']
               (drop 4 input_data) = Inr vs \<and>
             1 < length vs \<and> vs ! 0 = ABytes x \<and> vs ! 1 = ABytes y \<and>
             to_checksum_address env (bytes_hex x) = Inr cx \<and>
             to_checksum_address env (bytes_hex y) = Inr cy)
       \<longrightarrow> parse_uniswap_call env input_data = Inr None)"
  proof (intro impI)
    assume "4 \<le> length input_data \<and>
      bytes_hex (take 4 input_data) \<noteq> SIG_V2_SWAP_EXACT_ETH_FOR_TOKENS env \<and>
      bytes_hex (take 4 input_data) \<noteq> SIG_V2_SWAP_EXACT_TOKENS_FOR_TOKENS env \<and>
      bytes_hex (take 4 input_data) = SIG_V3_EXACT_INPUT_SINGLE env"
    then have p: "parse_uniswap_call env input_data =
        try_or_None (decode_v3 env (drop 4 input_data))"
      using parse_branch_v3 [of input_data env] by blast
    show "(abi_decode env [''address'', ''address'', ''uint24'', ''address'',
                       ''uint256'', ''uint256'', ''uint256'', ''uint160'']
         (drop 4 input_data) = Inr vals \<and>
       1 < length vals \<and> vals ! 0 = ABytes a \<and> vals ! 1 = ABytes b \<and>
       to_checksum_address env (bytes_hex a) = Inr t_in \<and>
       to_checksum_address env (bytes_hex b) = Inr t_out
       \<longrightarrow> parse_uniswap_call env input_data =
             Inr (Some \<lparr>swap_dex = ''V3'', swap_method = ''exactInputSingle'',
                        token_in = t_in, token_out = t_out\<rparr>)) \<and>
      (\<not> (\<exists>vs x y cx cy.
             abi_decode env [''address'', ''address'', ''uint24'', ''address'',
                             ''uint256'', ''uint256'', ''uint256'', ''uint160'']
               (drop 4 input_data) = Inr vs \<and>
             1 < length vs \<and> vs ! 0 = ABytes x \<and> vs ! 1 = ABytes y \<and>
             to_checksum_address env (bytes_hex x) = Inr cx \<and>
             to_checksum_address env (bytes_hex y) = Inr cy)
       \<longrightarrow> parse_uniswap_call env input_data = Inr None)"
    proof (intro conjI impI)
      assume "abi_decode env [''address'', ''address'', ''uint24'', ''address'',
                       ''uint256'', ''uint256'', ''uint256'', ''uint160'']
         (drop 4 input_data) = Inr vals \<and>
       1 < length vals \<and> vals ! 0 = ABytes a \<and> vals ! 1 = ABytes b \<and>
       to_checksum_address env (bytes_hex a) = Inr t_in \<and>
       to_checksum_address env (bytes_hex b) = Inr t_out"
      then have "decode_v3 env (drop 4 input_data) =
          Inr \<lparr>swap_dex = ''V3'', swap_method = ''exactInputSingle'',
               token_in = t_in, token_out = t_out\<rparr>"
        unfolding decode_v3_Inr_iff by blast
      then show "parse_uniswap_call env input_data =
          Inr (Some \<lparr>swap_dex = ''V3'', swap_method = ''exactInputSingle'',
                     token_in = t_in, token_out = t_out\<rparr>)"
        by (simp add: p try_or_None_Some)
    next
      assume "\<not> (\<exists>vs x y cx cy.
             abi_decode env [''address'', ''address'', ''uint24'', ''address'',
                             ''uint256'', ''uint256'', ''uint256'', ''uint160'']
               (drop 4 input_data) = Inr vs \<and>
             1 < length vs \<and> vs ! 0 = ABytes x \<and> vs ! 1 = ABytes y \<and>
             to_checksum_address env (bytes_hex x) = Inr cx \<and>
             to_checksum_address env (bytes_hex y) = Inr cy)"
      then have "\<forall>d. decode_v3 env (drop 4 input_data) \<noteq> Inr d"
        unfolding decode_v3_Inr_iff by blast
      then show "parse_uniswap_call env input_data = Inr None"
        by (simp add: p try_or_None_None)
    qed
  qed
qed


theorem parse_uniswap_call_never_raises_witness:
  "(bytes_hex (take 4 [0x12, 0x34, 0x56, 0x78, 0x00]) \<notin>
      {SIG_V2_SWAP_EXACT_ETH_FOR_TOKENS decoding_libs,
       SIG_V2_SWAP_EXACT_TOKENS_FOR_TOKENS decoding_libs,
       SIG_V3_EXACT_INPUT_SINGLE decoding_libs} \<and>
    parse_uniswap_call decoding_libs [0x12, 0x34, 0x56, 0x78, 0x00] = Inr None) \<and>
   (bytes_hex (take 4 [0x7f, 0xf3, 0x6a, 0xb5, 0x01]) =
      SIG_V2_SWAP_EXACT_ETH_FOR_TOKENS decoding_libs \<and>
    abi_decode decoding_libs [''uint256'', ''address[]'', ''address'', ''uint256'']
      (drop 4 [0x7f, 0xf3, 0x6a, 0xb5, 0x01]) =
      Inr [ABytes [0x11], ATuple [ABytes [0xaa], ABytes [0xbb]], ATuple [], AInt 5] \<and>
    to_checksum_address decoding_libs (bytes_hex [0xaa]) = Inr ''0xaa'' \<and>
    to_checksum_address decoding_libs (bytes_hex [0xbb]) = Inr ''0xbb'' \<and>
    parse_uniswap_call decoding_libs [0x7f, 0xf3, 0x6a, 0xb5, 0x01] =
      Inr (Some \<lparr>swap_dex = ''V2'', swap_method = ''swapExactETHForTokens'',
                 token_in = ''0xaa'', token_out = ''0xbb''\<rparr>)) \<and>
   (bytes_hex (take 4 [0x7f, 0xf3, 0x6a, 0xb5]) =
      SIG_V2_SWAP_EXACT_ETH_FOR_TOKENS decoding_libs \<and>
    abi_decode decoding_libs [''uint256'', ''address[]'', ''address'', ''uint256'']
      (drop 4 [0x7f, 0xf3, 0x6a, 0xb5]) = Inl ValueError \<and>
    parse_uniswap_call decoding_libs [0x7f, 0xf3, 0x6a, 0xb5] = Inr None) \<and>
   (bytes_hex (take 4 [0x38, 0xed, 0x17, 0x39, 0x01]) =
      SIG_V2_SWAP_EXACT_TOKENS_FOR_TOKENS decoding_libs \<and>
    abi_decode decoding_libs
      [''uint256'', ''uint256'', ''address[]'', ''address'', ''uint256'']
      (drop 4 [0x38, 0xed, 0x17, 0x39, 0x01]) =
      Inr [ABytes [0x11], ATuple [ABytes [0xaa], ABytes [0xbb]], ATuple [], AInt 5] \<and>
    parse_uniswap_call decoding_libs [0x38, 0xed, 0x17, 0x39, 0x01] = Inr None) \<and>
   (bytes_hex (take 4 [0x41, 0x4b, 0xf3, 0x89, 0x01]) =
      SIG_V3_EXACT_INPUT_SINGLE decoding_libs \<and>
    abi_decode decoding_libs
      [''address'', ''address'', ''uint24'', ''address'',
       ''uint256'', ''uint256'', ''uint256'', ''uint160'']
      (drop 4 [0x41, 0x4b, 0xf3, 0x89, 0x01]) =
      Inr [ABytes [0x11], ATuple [ABytes [0xaa], ABytes [0xbb]], ATuple [], AInt 5] \<and>
    parse_uniswap_call decoding_libs [0x41, 0x4b, 0xf3, 0x89, 0x01] = Inr None)"
proof -
  let ?V = "[ABytes [0x11], ATuple [ABytes [0xaa], ABytes [0xbb]], ATuple [], AInt 5]"
  let ?eth = "[''uint256'', ''address[]'', ''address'', ''uint256'']"
  let ?tok = "[''uint256'', ''uint256'', ''address[]'', ''address'', ''uint256'']"
  let ?v3 = "[''address'', ''address'', ''uint24'', ''address'',
              ''uint256'', ''uint256'', ''uint256'', ''uint160'']"
  have sigs: "SIG_V2_SWAP_EXACT_ETH_FOR_TOKENS decoding_libs = ''7ff36ab5''"
    "SIG_V2_SWAP_EXACT_TOKENS_FOR_TOKENS decoding_libs = ''38ed1739''"
    "SIG_V3_EXACT_INPUT_SINGLE decoding_libs = ''414bf389''"
    by (simp_all add: decoding_libs_def example_libs_def)
  have hx: "bytes_hex [0x12, 0x34, 0x56, 0x78] = ''12345678''"
    "bytes_hex [0x7f, 0xf3, 0x6a, 0xb5] = ''7ff36ab5''"
    "bytes_hex [0x38, 0xed, 0x17, 0x39] = ''38ed1739''"
    "bytes_hex [0x41, 0x4b, 0xf3, 0x89] = ''414bf389''"
    "bytes_hex [0xaa] = ''aa''" "bytes_hex [0xbb] = ''bb''"
    by (simp_all add: bytes_hex_def hex_digit_def)
  have dec: "\<And>tys. abi_decode decoding_libs tys [0x01] = Inr ?V"
    "\<And>tys. abi_decode decoding_libs tys [] = Inl ValueError"
    by (simp_all add: decoding_libs_def)
  have cs: "\<And>s. to_checksum_address decoding_libs s = Inr (''0x'' @ s)"
    by (simp add: decoding_libs_def example_libs_def)
  have r0: "parse_uniswap_call decoding_libs [0x12, 0x34, 0x56, 0x78, 0x00] = Inr None"
    using parse_uniswap_call_never_raises
      [where env = decoding_libs and input_data = "[0x12, 0x34, 0x56, 0x78, 0x00]",
        THEN conjunct2, THEN conjunct1]
    by (simp add: sigs hx)
  have r1: "parse_uniswap_call decoding_libs [0x7f, 0xf3, 0x6a, 0xb5, 0x01] =
      Inr (Some \<lparr>swap_dex = ''V2'', swap_method = ''swapExactETHForTokens'',
                 token_in = ''0xaa'', token_out = ''0xbb''\<rparr>)"
    using parse_uniswap_call_never_raises
      [where env = decoding_libs and input_data = "[0x7f, 0xf3, 0x6a, 0xb5, 0x01]"
         and tys = ?eth and i = 1 and meth = "''swapExactETHForTokens''" and vals = ?V
         and bss = "[[0xaa], [0xbb]]" and path = "[''0xaa'', ''0xbb'']",
        THEN conjunct2, THEN conjunct2, THEN conjunct1]
    by (simp add: sigs hx dec cs)
  have r2: "parse_uniswap_call decoding_libs [0x7f, 0xf3, 0x6a, 0xb5] = Inr None"
    using parse_uniswap_call_never_raises
      [where env = decoding_libs and input_data = "[0x7f, 0xf3, 0x6a, 0xb5]"
         and tys = ?eth and i = 1 and meth = "''swapExactETHForTokens''" and vals = "[]"
         and bss = "[]" and path = "[]",
        THEN conjunct2, THEN conjunct2, THEN conjunct1]
    by (simp add: sigs hx dec)
  have r3: "parse_uniswap_call decoding_libs [0x38, 0xed, 0x17, 0x39, 0x01] = Inr None"
    using parse_uniswap_call_never_raises
      [where env = decoding_libs and input_data = "[0x38, 0xed, 0x17, 0x39, 0x01]"
         and tys = ?tok and i = 2 and meth = "''swapExactTokensForTokens''" and vals = "[]"
         and bss = "[]" and path = "[]",
        THEN conjunct2, THEN conjunct2, THEN conjunct1]
    by (simp add: sigs hx dec)
  have r4: "parse_uniswap_call decoding_libs [0x41, 0x4b, 0xf3, 0x89, 0x01] = Inr None"
    using parse_uniswap_call_never_raises
      [where env = decoding_libs and input_data = "[0x41, 0x4b, 0xf3, 0x89, 0x01]"
         and vals = "[]" and a = "[]" and b = "[]" and t_in = "[]" and t_out = "[]",
        THEN conjunct2, THEN conjunct2, THEN conjunct2]
    by (simp add: sigs hx dec)
  show ?thesis
    by (simp add: r0 r1 r2 r3 r4 sigs hx dec cs)
qed

section \<open>Subscription channels: delays and deliveries\<close>

lemma sleeps_append: "sleeps (es @ fs) = sleeps es @ sleeps fs"
  by (induction es rule: sleeps.induct) simp_all

lemma yields_append: "yields (es @ fs) = yields es @ yields fs"
  by (induction es rule: yields.induct) simp_all

lemma sleeps_map_Yield: "sleeps (map Yield xs) = []"
  by (induction xs) simp_all

lemma yields_map_Yield: "yields (map Yield xs) = xs"
  by (induction xs) simp_all

text \<open>What one connection delivers to the consumer of each generator.\<close>

lemma sleeps_evm_step:
  "sleeps (evm_ws_sub_from b (c # rest)) = b # sleeps (evm_ws_sub_from (next_backoff b) rest)"
  by (cases c) (simp_all add: sleeps_append sleeps_map_Yield)

lemma sleeps_sol_step:
  "sleeps (solana_logs_sub_from b (c # rest)) =
     b # sleeps (solana_logs_sub_from (next_backoff b) rest)"
  by (cases c) (simp_all add: sleeps_append sleeps_map_Yield)

lemma yields_evm_step:
  "yields (evm_ws_sub_from b (c # rest)) =
     (case c of ConnectFailed \<Rightarrow> [] | Connected msgs \<Rightarrow> evm_recv_loop msgs)
       @ yields (evm_ws_sub_from (next_backoff b) rest)"
  by (cases c) (simp_all add: yields_append yields_map_Yield)

lemma yields_sol_step:
  "yields (solana_logs_sub_from b (c # rest)) =
     (case c of ConnectFailed \<Rightarrow> [] | Connected msgs \<Rightarrow> sol_recv_loop msgs)
       @ yields (solana_logs_sub_from (next_backoff b) rest)"
  by (cases c) (simp_all add: yields_append yields_map_Yield)

lemma sleeps_evm_capped:
  "sleeps (evm_ws_sub_from 30 conns) = replicate (length conns) 30"
  by (induction conns) (simp_all add: sleeps_evm_step next_backoff_def)

lemma sleeps_sol_capped:
  "sleeps (solana_logs_sub_from 30 conns) = replicate (length conns) 30"
  by (induction conns) (simp_all add: sleeps_sol_step next_backoff_def)

lemma yields_evm_from:
  "yields (evm_ws_sub_from b conns) =
     concat (map (\<lambda>c. case c of ConnectFailed \<Rightarrow> [] | Connected msgs \<Rightarrow> evm_recv_loop msgs)
               conns)"
  by (induction conns arbitrary: b) (simp_all add: yields_evm_step)

lemma yields_sol_from:
  "yields (solana_logs_sub_from b conns) =
     concat (map (\<lambda>c. case c of ConnectFailed \<Rightarrow> [] | Connected msgs \<Rightarrow> sol_recv_loop msgs)
               conns)"
  by (induction conns arbitrary: b) (simp_all add: yields_sol_step)

lemma sleeps_evm_from_2:
  "sleeps (evm_ws_sub_from 2 conns) =
     take (length conns) [2, 4, 8, 16] @ replicate (length conns - 4) 30"
proof -
  consider "conns = []" | c1 where "conns = [c1]" | c1 c2 where "conns = [c1, c2]"
    | c1 c2 c3 where "conns = [c1, c2, c3]"
    | c1 c2 c3 c4 rest where "conns = c1 # c2 # c3 # c4 # rest"
    by (metis list.exhaust)
  then show ?thesis
    by cases (simp_all add: sleeps_evm_step sleeps_evm_capped next_backoff_def)
qed

lemma sleeps_sol_from_2:
  "sleeps (solana_logs_sub_from 2 conns) =
     take (length conns) [2, 4, 8, 16] @ replicate (length conns - 4) 30"
proof -
  consider "conns = []" | c1 where "conns = [c1]" | c1 c2 where "conns = [c1, c2]"
    | c1 c2 c3 where "conns = [c1, c2, c3]"
    | c1 c2 c3 c4 rest where "conns = c1 # c2 # c3 # c4 # rest"
    by (metis list.exhaust)
  then show ?thesis
    by cases (simp_all add: sleeps_sol_step sleeps_sol_capped next_backoff_def)
qed

lemma example_notification_yields: "evm_on_message example_notification = Inr (Some example_hash)"
  by (simp add: evm_on_message_def example_notification_def example_hash_def json_loads_def
      dict_get_def bind_def startswith_def)

text \<open>
  C8, as stated, fails: the delay does not return to the minimum after a connection that
  succeeded. A failed connection, then one that subscribes and delivers a hash before it
  drops, then another failure: the three delays are 2, 4 and 8 seconds, not 2, 2 and 4.
\<close>

theorem backoff_not_reset_counterexample:
  "yields (evm_ws_sub [ConnectFailed, Connected [example_notification], ConnectFailed])
     = [example_hash] \<and>
   sleeps (evm_ws_sub [ConnectFailed, Connected [example_notification], ConnectFailed])
     = [2, 4, 8] \<and>
   sleeps (evm_ws_sub [ConnectFailed, Connected [example_notification], ConnectFailed])
     \<noteq> [2, 2, 4]"
  by (simp add: evm_ws_sub_def example_notification_yields next_backoff_def
      sleeps_append yields_append)

text \<open>
  C8, amended. In both channels the delay before a reconnect is 2 seconds after the first
  failure and doubles with every later failure of the channel, whether or not a connection
  succeeded in between, up to the cap of 30 seconds: 2, 4, 8, 16, 30, 30, ... It never
  returns to the minimum. Every connection ends in one sleep and is followed by the next
  connection, whose messages are delivered: the sequence of items is the concatenation of
  what each connection delivers.
\<close>

theorem backoff_doubles_capped_never_reset:
  "sleeps (evm_ws_sub conns) =
     take (length conns) [2, 4, 8, 16] @ replicate (length conns - 4) 30 \<and>
   sleeps (solana_logs_sub conns) =
     take (length conns) [2, 4, 8, 16] @ replicate (length conns - 4) 30 \<and>
   yields (evm_ws_sub conns) =
     concat (map (\<lambda>c. case c of ConnectFailed \<Rightarrow> [] | Connected msgs \<Rightarrow> evm_recv_loop msgs)
               conns) \<and>
   yields (solana_logs_sub conns) =
     concat (map (\<lambda>c. case c of ConnectFailed \<Rightarrow> [] | Connected msgs \<Rightarrow> sol_recv_loop msgs)
               conns)"
  by (simp add: evm_ws_sub_def solana_logs_sub_def sleeps_evm_from_2 sleeps_sol_from_2
      yields_evm_from yields_sol_from)

section \<open>What the EVM subscription yields\<close>

lemma evm_on_message_shape:
  assumes "evm_on_message raw = Inr (Some h)"
  shows "startswith h ''0x'' \<and> length h = 66"
  using assms
  by (auto simp: evm_on_message_def bind_def json_loads_def dict_get_def
      split: raw_msg.splits pyobj.splits sum.splits option.splits if_splits)

lemma evm_recv_loop_shape:
  "\<forall>h\<in>set (evm_recv_loop msgs). startswith h ''0x'' \<and> length h = 66"
proof (induction msgs)
  case Nil
  then show ?case by simp
next
  case (Cons raw rest)
  show ?case
  proof (cases "evm_on_message raw")
    case (Inl e)
    then show ?thesis by simp
  next
    case (Inr r)
    then show ?thesis
      using Cons evm_on_message_shape [of raw] by (cases r) simp_all
  qed
qed

lemma evm_on_message_other_method:
  assumes "map_of items ''method'' \<noteq> Some (PStr ''eth_subscription'')"
  shows "evm_on_message (Text (PDict items)) = Inr None"
  using assms by (simp add: evm_on_message_def bind_def json_loads_def dict_get_def)

lemma evm_on_message_no_params:
  assumes "map_of items ''method'' = Some (PStr ''eth_subscription'')"
    and "map_of items ''params'' = None"
  shows "evm_on_message (Text (PDict items)) = Inr None"
  using assms by (simp add: evm_on_message_def bind_def json_loads_def dict_get_def)

lemma evm_on_message_bad_result:
  assumes "map_of items ''method'' = Some (PStr ''eth_subscription'')"
    and "map_of items ''params'' = Some (PDict ps)"
    and "\<not> (\<exists>h. map_of ps ''result'' = Some (PStr h) \<and> startswith h ''0x'' \<and> length h = 66)"
  shows "evm_on_message (Text (PDict items)) = Inr None"
  using assms
  by (auto simp: evm_on_message_def bind_def json_loads_def dict_get_def
      split: option.splits pyobj.splits)

lemma evm_on_message_raises:
  assumes "raw = Garbage \<or> (\<exists>d. raw = Text d \<and> (\<forall>items. d \<noteq> PDict items))"
  shows "isl (evm_on_message raw)"
  using assms
  by (auto simp: evm_on_message_def bind_def json_loads_def dict_get_def split: pyobj.splits)

text \<open>
  C10, as stated, fails: a message that is not an \<open>eth_subscription\<close> is not always
  dropped silently. The JSON text \<open>[]\<close> makes \<open>msg.get\<close> raise AttributeError; the
  exception leaves the connection, and the notification that the same connection would
  have delivered next is never received.
\<close>

theorem non_object_message_counterexample:
  "evm_on_message (Text (PList [])) = Inl AttributeError \<and>
   evm_ws_sub [Connected [Text (PList []), example_notification]] = [Sleep 2] \<and>
   evm_ws_sub [Connected [example_notification]] = [Yield example_hash, Sleep 2]"
proof -
  have "evm_on_message (Text (PList [])) = Inl AttributeError"
    by (simp add: evm_on_message_def bind_def json_loads_def dict_get_def)
  then show ?thesis
    by (simp add: evm_ws_sub_def example_notification_yields)
qed

text \<open>
  C10, amended. Every item that the EVM subscription generator yields is a string that
  starts with \<open>0x\<close> and has exactly 66 characters. A message that is a JSON object is
  skipped, and the loop goes on to the next message, when its method is not
  \<open>eth_subscription\<close>, and when it is an \<open>eth_subscription\<close> whose params are absent or
  are an object whose result is not such a string. A message that is not JSON or not a
  JSON object raises: nothing is yielded for it or for the rest of that connection, which
  is left for a reconnect. In no case does anything but such a string reach the watch loop.
\<close>

theorem evm_ws_sub_yields_only_hashes:
  "(\<forall>h\<in>set (yields (evm_ws_sub conns)). startswith h ''0x'' \<and> length h = 66) \<and>
   (map_of items ''method'' \<noteq> Some (PStr ''eth_subscription'')
    \<longrightarrow> evm_recv_loop (Text (PDict items) # rest) = evm_recv_loop rest) \<and>
   (map_of items ''method'' = Some (PStr ''eth_subscription'') \<and>
    (map_of items ''params'' = None \<or>
     (\<exists>ps. map_of items ''params'' = Some (PDict ps) \<and>
        \<not> (\<exists>h. map_of ps ''result'' = Some (PStr h) \<and> startswith h ''0x'' \<and> length h = 66)))
    \<longrightarrow> evm_recv_loop (Text (PDict items) # rest) = evm_recv_loop rest) \<and>
   (raw = Garbage \<or> (\<exists>d. raw = Text d \<and> (\<forall>its. d \<noteq> PDict its))
    \<longrightarrow> isl (evm_on_message raw) \<and> evm_recv_loop (raw # rest) = [])"
proof (intro conjI impI)
  have "\<forall>h\<in>set (concat (map (\<lambda>c. case c of ConnectFailed \<Rightarrow> []
              | Connected msgs \<Rightarrow> evm_recv_loop msgs) conns)).
          startswith h ''0x'' \<and> length h = 66"
    using evm_recv_loop_shape by (auto split: connection.splits)
  then show "\<forall>h\<in>set (yields (evm_ws_sub conns)). startswith h ''0x'' \<and> length h = 66"
    by (simp add: evm_ws_sub_def yields_evm_from)
next
  assume "map_of items ''method'' \<noteq> Some (PStr ''eth_subscription'')"
  then show "evm_recv_loop (Text (PDict items) # rest) = evm_recv_loop rest"
    by (simp add: evm_on_message_other_method)
next
  assume "map_of items ''method'' = Some (PStr ''eth_subscription'') \<and>
    (map_of items ''params'' = None \<or>
     (\<exists>ps. map_of items ''params'' = Some (PDict ps) \<and>
        \<not> (\<exists>h. map_of ps ''result'' = Some (PStr h) \<and> startswith h ''0x'' \<and> length h = 66)))"
  then have "evm_on_message (Text (PDict items)) = Inr None"
    using evm_on_message_no_params evm_on_message_bad_result by blast
  then show "evm_recv_loop (Text (PDict items) # rest) = evm_recv_loop rest"
    by simp
next
  assume r: "raw = Garbage \<or> (\<exists>d. raw = Text d \<and> (\<forall>its. d \<noteq> PDict its))"
  then show "isl (evm_on_message raw)"
    by (rule evm_on_message_raises)
  then show "evm_recv_loop (raw # rest) = []"
    by (auto simp: isl_def)
qed

theorem evm_ws_sub_yields_only_hashes_witness:
  "(example_hash \<in> set (yields (evm_ws_sub [Connected [example_notification]])) \<and>
    startswith example_hash ''0x'' \<and> length example_hash = 66) \<and>
   (map_of [(''id'', PInt 1), (''result'', PStr ''0x9cef'')] ''method''
      \<noteq> Some (PStr ''eth_subscription'') \<and>
    evm_recv_loop [Text (PDict [(''id'', PInt 1), (''result'', PStr ''0x9cef'')]),
                   example_notification] = [example_hash]) \<and>
   (map_of [(''method'', PStr ''eth_subscription''),
            (''params'', PDict [(''result'', PStr ''0x1234'')])] ''params''
      = Some (PDict [(''result'', PStr ''0x1234'')]) \<and>
    evm_recv_loop [Text (PDict [(''method'', PStr ''eth_subscription''),
                                (''params'', PDict [(''result'', PStr ''0x1234'')])]),
                   example_notification] = [example_hash]) \<and>
   (isl (evm_on_message Garbage) \<and> evm_recv_loop [Garbage, example_notification] = [])"
proof -
  have y: "yields (evm_ws_sub [Connected [example_notification]]) = [example_hash]"
    by (simp add: evm_ws_sub_def example_notification_yields)
  have bad: "\<not> (\<exists>h. map_of [(''result'', PStr ''0x1234'')] ''result'' = Some (PStr h) \<and>
      startswith h ''0x'' \<and> length h = 66)"
    by simp
  have one: "evm_recv_loop [example_notification] = [example_hash]"
    by (simp add: example_notification_yields)
  show ?thesis
    using y bad one
      evm_ws_sub_yields_only_hashes [of "[Connected [example_notification]]"
        "[(''id'', PInt 1), (''result'', PStr ''0x9cef'')]" "[example_notification]" Garbage]
      evm_ws_sub_yields_only_hashes [of "[]"
        "[(''method'', PStr ''eth_subscription''),
          (''params'', PDict [(''result'', PStr ''0x1234'')])]" "[example_notification]" Garbage]
    by simp
qed

section \<open>EVM classification\<close>

lemma is_router_iff:
  "is_router cfg tx = (lower (or_empty (tx_to tx)) \<in> lower ` snd ` set (routers cfg))"
  by (force simp: is_router_def routers_lc_def to_addr_def)

lemma is_whale_iff:
  "is_whale cfg tx = (lower (or_empty (tx_from tx)) \<in> lower ` whales cfg)"
  by (simp add: is_whale_def whales_lc_def frm_def)

text \<open>
  The figure compared with the fiat threshold: the rounded product of native amount and
  rate when the watcher holds a rate, and 0 when it holds none.
\<close>

lemma or_zero_est_usd:
  "or_zero (est_usd env native_usd tx) =
     (if native_usd \<noteq> 0 then float_mul env (value_native env tx) native_usd else 0)"
  by (simp add: or_zero_def est_usd_def)

lemma watch_evm_tx_alerts:
  "(watch_evm_tx env cfg native_usd tx_hash (Some tx) \<noteq> None) =
     (is_router cfg tx \<and>
      (is_whale cfg tx \<or> big_native env cfg tx \<or> big_usd env cfg native_usd tx
       \<or> swap_of env cfg tx \<noteq> None))"
  by (simp add: watch_evm_tx_def)

lemma lower_router: "lower ''0x7a250d5630B4cF539739dF2C5dAcb4c659F2488D'' =
    ''0x7a250d5630b4cf539739df2c5dacb4c659f2488d''"
  by code_simp

lemma lower_other: "lower ''0x00000000000000000000000000000000000000B2'' =
    ''0x00000000000000000000000000000000000000b2''"
  by code_simp

lemma lower_sender: "lower ''0x00000000000000000000000000000000000000A1'' =
    ''0x00000000000000000000000000000000000000a1''"
  by code_simp

lemma hex_int_one_ether: "hex_int ''0xde0b6b3a7640000'' = Inr 1000000000000000000"
  by (simp add: hex_int_def startswith_def digit_value_def)

lemma value_tx_router_10: "value_native example_libs tx_router_10 = 10"
  by (simp add: value_native_def tx_router_10_def example_libs_def)

lemma value_tx_other_1000: "value_native example_libs tx_other_1000 = 1000"
  by (simp add: value_native_def tx_other_1000_def example_libs_def)

lemma value_tx_router_1: "value_native example_libs tx_router_1 = 1"
  by (simp add: value_native_def tx_router_1_def example_libs_def bind_def hex_int_one_ether)

lemma value_tx_router_zero: "value_native example_libs tx_router_zero = 0"
  by (simp add: value_native_def tx_router_zero_def example_libs_def)

lemma is_router_tx_router_10: "is_router example_cfg tx_router_10"
  by (simp add: is_router_iff or_empty_def tx_router_10_def example_cfg_def lower_router)

lemma is_router_tx_router_1: "is_router zero_usd_cfg tx_router_1"
  by (simp add: is_router_iff or_empty_def tx_router_1_def example_cfg_def
      zero_usd_cfg_def lower_router)

lemma is_router_tx_router_zero: "is_router zero_usd_cfg tx_router_zero"
  by (simp add: is_router_iff or_empty_def tx_router_zero_def example_cfg_def
      zero_usd_cfg_def lower_router)

lemma not_router_tx_other_1000: "\<not> is_router example_cfg tx_other_1000"
  by (simp add: is_router_iff or_empty_def tx_other_1000_def example_cfg_def
      lower_router lower_other)

text \<open>
  C1, as stated, fails: an alert can be emitted for a transaction to a router when the
  sender is no whale, the native value is below the native threshold, there is no
  estimated fiat value at all and no swap was decoded. With the fiat threshold configured
  as 0 and no rate held, \<open>est_usd\<close> is \<open>None\<close> and \<open>(est_usd or 0) >= min_usd\<close> is
  \<open>0 >= 0\<close>: a transfer of 0 ETH to the router is alerted.
\<close>

theorem alert_without_any_reason_counterexample:
  "lower (or_empty (tx_to tx_router_zero)) \<in> lower ` snd ` set (routers zero_usd_cfg) \<and>
   lower (or_empty (tx_from tx_router_zero)) \<notin> lower ` whales zero_usd_cfg \<and>
   value_native example_libs tx_router_zero < min_native zero_usd_cfg \<and>
   est_usd example_libs 0 tx_router_zero = None \<and>
   swap_of example_libs zero_usd_cfg tx_router_zero = None \<and>
   watch_evm_tx example_libs zero_usd_cfg 0 ''0xh'' (Some tx_router_zero) \<noteq> None"
proof -
  have r: "lower (or_empty (tx_to tx_router_zero)) \<in> lower ` snd ` set (routers zero_usd_cfg)"
    using is_router_tx_router_zero unfolding is_router_iff .
  have w: "lower (or_empty (tx_from tx_router_zero)) \<notin> lower ` whales zero_usd_cfg"
    by (simp add: zero_usd_cfg_def example_cfg_def)
  have n: "value_native example_libs tx_router_zero < min_native zero_usd_cfg"
    by (simp add: value_tx_router_zero zero_usd_cfg_def example_cfg_def)
  have e: "est_usd example_libs 0 tx_router_zero = None"
    by (simp add: est_usd_def)
  have s: "swap_of example_libs zero_usd_cfg tx_router_zero = None"
    by (simp add: swap_of_def tx_router_zero_def)
  have u: "big_usd example_libs zero_usd_cfg 0 tx_router_zero"
    by (simp add: big_usd_def e or_zero_def zero_usd_cfg_def example_cfg_def)
  have a: "watch_evm_tx example_libs zero_usd_cfg 0 ''0xh'' (Some tx_router_zero) \<noteq> None"
    unfolding watch_evm_tx_alerts using u is_router_tx_router_zero by simp
  from r w n e s a show ?thesis by blast
qed

text \<open>
  C1, amended. For a resolved transaction an alert is emitted if and only if the
  lower-cased destination is one of the lower-cased router addresses and at least one of
  these holds: the lower-cased sender is one of the lower-cased whales; the native value
  is at least \<open>min_native\<close>; the estimated fiat value, taken as 0 when there is no
  estimate, is at least \<open>min_usd\<close>; a swap was decoded. The estimate is the product of
  native value and rate as the machine rounds it when the watcher holds a rate other than
  0, and is absent otherwise. In particular a transaction to an address that is no router
  gives no alert whatever its value, sender and input; a transaction to a router whose
  native value equals \<open>min_native\<close> gives one; and one from no whale, below the native
  threshold, with that fiat figure below the fiat threshold and no decoded swap, gives none.
\<close>

theorem evm_alert_iff_router_and_reason:
  "((watch_evm_tx env cfg native_usd tx_hash (Some tx) \<noteq> None) =
      (lower (or_empty (tx_to tx)) \<in> lower ` snd ` set (routers cfg) \<and>
       (lower (or_empty (tx_from tx)) \<in> lower ` whales cfg \<or>
        min_native cfg \<le> value_native env tx \<or>
        min_usd cfg \<le> (case est_usd env native_usd tx of None \<Rightarrow> 0 | Some e \<Rightarrow> e) \<or>
        swap_of env cfg tx \<noteq> None))) \<and>
   est_usd env native_usd tx =
     (if native_usd \<noteq> 0 then Some (float_mul env (value_native env tx) native_usd)
      else None) \<and>
   (lower (or_empty (tx_to tx)) \<notin> lower ` snd ` set (routers cfg)
    \<longrightarrow> watch_evm_tx env cfg native_usd tx_hash (Some tx) = None) \<and>
   (lower (or_empty (tx_to tx)) \<in> lower ` snd ` set (routers cfg) \<and>
    value_native env tx = min_native cfg
    \<longrightarrow> watch_evm_tx env cfg native_usd tx_hash (Some tx) \<noteq> None) \<and>
   (lower (or_empty (tx_from tx)) \<notin> lower ` whales cfg \<and>
    value_native env tx < min_native cfg \<and>
    (case est_usd env native_usd tx of None \<Rightarrow> 0 | Some e \<Rightarrow> e) < min_usd cfg \<and>
    swap_of env cfg tx = None
    \<longrightarrow> watch_evm_tx env cfg native_usd tx_hash (Some tx) = None)"
proof -
  have main: "(watch_evm_tx env cfg native_usd tx_hash (Some tx) \<noteq> None) =
      (lower (or_empty (tx_to tx)) \<in> lower ` snd ` set (routers cfg) \<and>
       (lower (or_empty (tx_from tx)) \<in> lower ` whales cfg \<or>
        min_native cfg \<le> value_native env tx \<or>
        min_usd cfg \<le> (case est_usd env native_usd tx of None \<Rightarrow> 0 | Some e \<Rightarrow> e) \<or>
        swap_of env cfg tx \<noteq> None))"
    unfolding watch_evm_tx_alerts is_router_iff is_whale_iff big_native_def big_usd_def
      or_zero_def by simp
  show ?thesis
  proof (intro conjI impI)
    show "(watch_evm_tx env cfg native_usd tx_hash (Some tx) \<noteq> None) =
      (lower (or_empty (tx_to tx)) \<in> lower ` snd ` set (routers cfg) \<and>
       (lower (or_empty (tx_from tx)) \<in> lower ` whales cfg \<or>
        min_native cfg \<le> value_native env tx \<or>
        min_usd cfg \<le> (case est_usd env native_usd tx of None \<Rightarrow> 0 | Some e \<Rightarrow> e) \<or>
        swap_of env cfg tx \<noteq> None))"
      by (rule main)
  next
    show "est_usd env native_usd tx =
      (if native_usd \<noteq> 0 then Some (float_mul env (value_native env tx) native_usd)
       else None)"
      by (simp add: est_usd_def)
  next
    assume "lower (or_empty (tx_to tx)) \<notin> lower ` snd ` set (routers cfg)"
    with main show "watch_evm_tx env cfg native_usd tx_hash (Some tx) = None" by blast
  next
    assume "lower (or_empty (tx_to tx)) \<in> lower ` snd ` set (routers cfg) \<and>
      value_native env tx = min_native cfg"
    with main show "watch_evm_tx env cfg native_usd tx_hash (Some tx) \<noteq> None" by simp
  next
    assume "lower (or_empty (tx_from tx)) \<notin> lower ` whales cfg \<and>
      value_native env tx < min_native cfg \<and>
      (case est_usd env native_usd tx of None \<Rightarrow> 0 | Some e \<Rightarrow> e) < min_usd cfg \<and>
      swap_of env cfg tx = None"
    with main show "watch_evm_tx env cfg native_usd tx_hash (Some tx) = None"
      by (metis not_le)
  qed
qed

theorem evm_alert_iff_router_and_reason_witness:
  "(lower (or_empty (tx_to tx_other_1000)) \<notin> lower ` snd ` set (routers example_cfg) \<and>
    value_native example_libs tx_other_1000 = 1000 \<and>
    watch_evm_tx example_libs example_cfg 2000 ''0xh'' (Some tx_other_1000) = None) \<and>
   (lower (or_empty (tx_to tx_router_10)) \<in> lower ` snd ` set (routers example_cfg) \<and>
    value_native example_libs tx_router_10 = min_native example_cfg \<and>
    watch_evm_tx example_libs example_cfg 0 ''0xh'' (Some tx_router_10) \<noteq> None) \<and>
   (lower (or_empty (tx_from tx_router_1)) \<notin> lower ` whales example_cfg \<and>
    value_native example_libs tx_router_1 < min_native example_cfg \<and>
    est_usd example_libs 2000 tx_router_1 = Some 2000 \<and>
    (case est_usd example_libs 2000 tx_router_1 of None \<Rightarrow> 0 | Some e \<Rightarrow> e)
      < min_usd example_cfg \<and>
    swap_of example_libs example_cfg tx_router_1 = None \<and>
    watch_evm_tx example_libs example_cfg 2000 ''0xh'' (Some tx_router_1) = None)"
proof -
  have a: "lower (or_empty (tx_to tx_other_1000)) \<notin> lower ` snd ` set (routers example_cfg)"
    using not_router_tx_other_1000 unfolding is_router_iff .
  have b: "lower (or_empty (tx_to tx_router_10)) \<in> lower ` snd ` set (routers example_cfg)"
    using is_router_tx_router_10 unfolding is_router_iff .
  have c: "value_native example_libs tx_router_10 = min_native example_cfg"
    by (simp add: value_tx_router_10 example_cfg_def)
  have d: "lower (or_empty (tx_from tx_router_1)) \<notin> lower ` whales example_cfg"
    by (simp add: example_cfg_def)
  have e: "value_native example_libs tx_router_1 < min_native example_cfg"
    by (simp add: value_tx_router_1 example_cfg_def)
  have f: "est_usd example_libs 2000 tx_router_1 = Some 2000"
    by (simp add: est_usd_def value_tx_router_1) (simp add: example_libs_def)
  have f': "(case est_usd example_libs 2000 tx_router_1 of None \<Rightarrow> 0 | Some e \<Rightarrow> e)
      < min_usd example_cfg"
    by (simp add: f example_cfg_def)
  have g: "swap_of example_libs example_cfg tx_router_1 = None"
    by (simp add: swap_of_def tx_router_1_def)
  note t1 = evm_alert_iff_router_and_reason
      [of example_libs example_cfg 2000 "''0xh''" tx_other_1000]
  note t2 = evm_alert_iff_router_and_reason
      [of example_libs example_cfg 0 "''0xh''" tx_router_10]
  note t3 = evm_alert_iff_router_and_reason
      [of example_libs example_cfg 2000 "''0xh''" tx_router_1]
  have r1: "watch_evm_tx example_libs example_cfg 2000 ''0xh'' (Some tx_other_1000) = None"
    using conjunct1 [OF conjunct2 [OF conjunct2 [OF t1]]] a by (rule mp)
  have r2: "watch_evm_tx example_libs example_cfg 0 ''0xh'' (Some tx_router_10) \<noteq> None"
    using conjunct1 [OF conjunct2 [OF conjunct2 [OF conjunct2 [OF t2]]]] conjI [OF b c]
    by (rule mp)
  have r3: "watch_evm_tx example_libs example_cfg 2000 ''0xh'' (Some tx_router_1) = None"
    using conjunct2 [OF conjunct2 [OF conjunct2 [OF conjunct2 [OF t3]]]]
      conjI [OF d conjI [OF e conjI [OF f' g]]] by (rule mp)
  from a value_tx_other_1000 r1 b c r2 d e f f' g r3 show ?thesis
    by blast
qed

section \<open>Classification without a rate\<close>

lemma native_usd_of_unavailable:
  assumes "lookup = None \<or> lookup = Some 0"
  shows "native_usd_of lookup = 0"
  using assms by (auto simp: native_usd_of_def or_zero_def)

lemma get_native_usd_failed:
  assumes "isl fetch"
  shows "get_native_usd price_cache now fetch coingecko_id cache_seconds =
    ((case price_cache coingecko_id of
        None \<Rightarrow> None
      | Some e \<Rightarrow>
          if coingecko_id \<noteq> [] \<and> now - entry_t e < real_of_int cache_seconds
          then Some (entry_p e) else None),
     price_cache)"
  using assms by (auto simp: get_native_usd_def isl_def split: option.splits)

lemma get_native_usd_fetched:
  assumes "fetch = Inr usd" and "coingecko_id \<noteq> []"
    and "\<forall>e. price_cache coingecko_id = Some e
           \<longrightarrow> \<not> now - entry_t e < real_of_int cache_seconds"
  shows "get_native_usd price_cache now fetch coingecko_id cache_seconds =
    (Some usd, price_cache(coingecko_id \<mapsto> \<lparr>entry_p = usd, entry_t = now\<rparr>))"
  using assms by (auto simp: get_native_usd_def split: option.splits)

text \<open>
  C6, as stated, fails: without a rate the fiat rule can still make an event alertable.
  With the fiat threshold configured as 0 and the price lookup returning nothing, a
  transfer of 1 ETH to the router, from no whale, below the native threshold of 10 and
  with no decoded swap, is alerted: the comparison made is \<open>0 >= min_usd\<close>.
\<close>

theorem fiat_rule_without_rate_counterexample:
  "est_usd example_libs (native_usd_of None) tx_router_1 = None \<and>
   \<not> is_whale zero_usd_cfg tx_router_1 \<and>
   \<not> big_native example_libs zero_usd_cfg tx_router_1 \<and>
   swap_of example_libs zero_usd_cfg tx_router_1 = None \<and>
   big_usd example_libs zero_usd_cfg (native_usd_of None) tx_router_1 \<and>
   watch_evm_tx example_libs zero_usd_cfg (native_usd_of None) ''0xh'' (Some tx_router_1)
     \<noteq> None"
proof -
  have r: "native_usd_of None = 0" by (simp add: native_usd_of_unavailable)
  have e: "est_usd example_libs 0 tx_router_1 = None" by (simp add: est_usd_def)
  have w: "\<not> is_whale zero_usd_cfg tx_router_1"
    by (simp add: is_whale_def whales_lc_def zero_usd_cfg_def example_cfg_def)
  have n: "\<not> big_native example_libs zero_usd_cfg tx_router_1"
    by (simp add: big_native_def value_tx_router_1 zero_usd_cfg_def example_cfg_def)
  have s: "swap_of example_libs zero_usd_cfg tx_router_1 = None"
    by (simp add: swap_of_def tx_router_1_def)
  have u: "big_usd example_libs zero_usd_cfg 0 tx_router_1"
    by (simp add: big_usd_def e or_zero_def zero_usd_cfg_def example_cfg_def)
  have "watch_evm_tx example_libs zero_usd_cfg 0 ''0xh'' (Some tx_router_1) \<noteq> None"
    unfolding watch_evm_tx_alerts using u is_router_tx_router_1 by simp
  with r e w n s u show ?thesis by simp
qed

text \<open>
  C6, amended. When no rate is available (the lookup returns \<open>None\<close> or the rate is 0)
  the estimated fiat value is absent and an alert shows no fiat figure. The fiat rule
  then compares 0 with the fiat threshold: it holds exactly when the threshold is at most
  0, so with a positive threshold it never makes the event alertable, and the alert is
  decided by router, whale, native value and swap alone. With a rate other than 0 the
  estimated fiat value is the product of native amount and rate, as the machine rounds
  it. Nothing raises: a lookup whose request fails returns a value and leaves the cache
  as it was; the value is the cached price when the identifier is not empty and the entry
  is younger than \<open>cache_seconds\<close> (no request is made then), and \<open>None\<close> in every other
  case, an expired entry included. A request that succeeds is returned and cached with
  the time of the call.
\<close>

theorem no_rate_no_fiat_estimate:
  "(lookup = None \<or> lookup = Some 0 \<longrightarrow>
      est_usd env (native_usd_of lookup) tx = None \<and>
      big_usd env cfg (native_usd_of lookup) tx = (min_usd cfg \<le> 0) \<and>
      (\<forall>a. watch_evm_tx env cfg (native_usd_of lookup) tx_hash (Some tx) = Some a
         \<longrightarrow> alert_usd a = None) \<and>
      (0 < min_usd cfg \<longrightarrow>
         (watch_evm_tx env cfg (native_usd_of lookup) tx_hash (Some tx) \<noteq> None) =
         (is_router cfg tx \<and>
          (is_whale cfg tx \<or> big_native env cfg tx \<or> swap_of env cfg tx \<noteq> None)))) \<and>
   (lookup = Some rate \<and> rate \<noteq> 0 \<longrightarrow>
      est_usd env (native_usd_of lookup) tx
        = Some (float_mul env (value_native env tx) rate)) \<and>
   (isl fetch \<longrightarrow>
      get_native_usd price_cache now fetch coingecko_id cache_seconds =
        ((case price_cache coingecko_id of
            None \<Rightarrow> None
          | Some e \<Rightarrow>
              if coingecko_id \<noteq> [] \<and> now - entry_t e < real_of_int cache_seconds
              then Some (entry_p e) else None),
         price_cache)) \<and>
   (fetch = Inr usd \<and> coingecko_id \<noteq> [] \<and>
    (\<forall>e. price_cache coingecko_id = Some e
       \<longrightarrow> \<not> now - entry_t e < real_of_int cache_seconds) \<longrightarrow>
      get_native_usd price_cache now fetch coingecko_id cache_seconds =
        (Some usd, price_cache(coingecko_id \<mapsto> \<lparr>entry_p = usd, entry_t = now\<rparr>)))"
proof (intro conjI impI)
  assume un: "lookup = None \<or> lookup = Some 0"
  then have z: "native_usd_of lookup = 0" by (rule native_usd_of_unavailable)
  show e: "est_usd env (native_usd_of lookup) tx = None"
    by (simp add: z est_usd_def)
  show b: "big_usd env cfg (native_usd_of lookup) tx = (min_usd cfg \<le> 0)"
    by (simp add: big_usd_def e or_zero_def)
  show "\<forall>a. watch_evm_tx env cfg (native_usd_of lookup) tx_hash (Some tx) = Some a
      \<longrightarrow> alert_usd a = None"
    using e by (auto simp: watch_evm_tx_def split: if_splits)
  assume "0 < min_usd cfg"
  with b have "\<not> big_usd env cfg (native_usd_of lookup) tx" by simp
  then show "(watch_evm_tx env cfg (native_usd_of lookup) tx_hash (Some tx) \<noteq> None) =
      (is_router cfg tx \<and>
       (is_whale cfg tx \<or> big_native env cfg tx \<or> swap_of env cfg tx \<noteq> None))"
    unfolding watch_evm_tx_alerts by simp
next
  assume "lookup = Some rate \<and> rate \<noteq> 0"
  then show "est_usd env (native_usd_of lookup) tx
      = Some (float_mul env (value_native env tx) rate)"
    by (simp add: native_usd_of_def or_zero_def est_usd_def)
next
  assume "isl fetch"
  then show "get_native_usd price_cache now fetch coingecko_id cache_seconds =
      ((case price_cache coingecko_id of
          None \<Rightarrow> None
        | Some e \<Rightarrow>
            if coingecko_id \<noteq> [] \<and> now - entry_t e < real_of_int cache_seconds
            then Some (entry_p e) else None),
       price_cache)"
    by (rule get_native_usd_failed)
next
  assume "fetch = Inr usd \<and> coingecko_id \<noteq> [] \<and>
    (\<forall>e. price_cache coingecko_id = Some e
       \<longrightarrow> \<not> now - entry_t e < real_of_int cache_seconds)"
  then show "get_native_usd price_cache now fetch coingecko_id cache_seconds =
      (Some usd, price_cache(coingecko_id \<mapsto> \<lparr>entry_p = usd, entry_t = now\<rparr>))"
    using get_native_usd_fetched by blast
qed

theorem no_rate_no_fiat_estimate_witness:
  "((None :: real option) = None \<or> (None :: real option) = Some 0) \<and>
   est_usd example_libs (native_usd_of None) tx_router_10 = None \<and>
   (\<exists>a. watch_evm_tx example_libs example_cfg (native_usd_of None) ''0xh'' (Some tx_router_10)
          = Some a \<and> alert_usd a = None) \<and>
   0 < min_usd example_cfg \<and>
   \<not> big_usd example_libs example_cfg (native_usd_of None) tx_router_10 \<and>
   (Some 2000 = Some (2000 :: real) \<and> (2000 :: real) \<noteq> 0) \<and>
   est_usd example_libs (native_usd_of (Some 2000)) tx_router_10 = Some 20000 \<and>
   isl (Inl OSError :: py_error + real) \<and>
   get_native_usd old_price_cache 100 (Inl OSError) ''ethereum'' 60 = (None, old_price_cache) \<and>
   get_native_usd old_price_cache 30 (Inl OSError) ''ethereum'' 60
     = (Some 1234, old_price_cache) \<and>
   get_native_usd old_price_cache 100 (Inr 2000) ''ethereum'' 60
     = (Some 2000, old_price_cache(''ethereum'' \<mapsto> \<lparr>entry_p = 2000, entry_t = 100\<rparr>))"
proof -
  have pos: "0 < min_usd example_cfg" by (simp add: example_cfg_def)
  have al: "watch_evm_tx example_libs example_cfg (native_usd_of None) ''0xh''
      (Some tx_router_10) \<noteq> None"
    unfolding watch_evm_tx_alerts using is_router_tx_router_10
    by (simp add: big_native_def value_tx_router_10 example_cfg_def)
  then obtain a where a: "watch_evm_tx example_libs example_cfg (native_usd_of None) ''0xh''
      (Some tx_router_10) = Some a" by blast
  have t: "isl (Inl OSError :: py_error + real)" by simp
  have old: "old_price_cache ''ethereum'' = Some \<lparr>entry_p = 1234, entry_t = 0\<rparr>"
    by (simp add: old_price_cache_def)
  have expired: "Inr 2000 = (Inr 2000 :: py_error + real) \<and> ''ethereum'' \<noteq> [] \<and>
      (\<forall>e. old_price_cache ''ethereum'' = Some e
         \<longrightarrow> \<not> (100 :: real) - entry_t e < real_of_int 60)"
    by (simp add: old)
  note n = no_rate_no_fiat_estimate [of None example_libs tx_router_10 example_cfg "''0xh''"
      2000 "Inl OSError" old_price_cache 100 "''ethereum''" 60 2000]
  note s = no_rate_no_fiat_estimate [of "Some 2000" example_libs tx_router_10 example_cfg
      "''0xh''" 2000 "Inl OSError" old_price_cache 30 "''ethereum''" 60 2000]
  note g = no_rate_no_fiat_estimate [of None example_libs tx_router_10 example_cfg "''0xh''"
      2000 "Inr 2000" old_price_cache 100 "''ethereum''" 60 2000]
  have e1: "est_usd example_libs (native_usd_of None) tx_router_10 = None" using n by simp
  have e2: "alert_usd a = None" using n a by simp
  have e3: "\<not> big_usd example_libs example_cfg (native_usd_of None) tx_router_10"
    using n pos by simp
  have e4: "est_usd example_libs (native_usd_of (Some 2000)) tx_router_10 = Some 20000"
    using s by (simp add: value_tx_router_10) (simp add: example_libs_def)
  have e5: "get_native_usd old_price_cache 100 (Inl OSError) ''ethereum'' 60
      = (None, old_price_cache)"
    using mp [OF conjunct1 [OF conjunct2 [OF conjunct2 [OF n]]] t] by (simp add: old)
  have e6: "get_native_usd old_price_cache 30 (Inl OSError) ''ethereum'' 60
      = (Some 1234, old_price_cache)"
    using mp [OF conjunct1 [OF conjunct2 [OF conjunct2 [OF s]]] t] by (simp add: old)
  have e7: "get_native_usd old_price_cache 100 (Inr 2000) ''ethereum'' 60
      = (Some 2000, old_price_cache(''ethereum'' \<mapsto> \<lparr>entry_p = 2000, entry_t = 100\<rparr>))"
    using mp [OF conjunct2 [OF conjunct2 [OF conjunct2 [OF g]]] expired] .
  from pos a e1 e2 e3 e4 t e5 e6 e7 show ?thesis by simp
qed

section \<open>Auto-learn: one call\<close>

text \<open>The three early returns leave the object and the files as they were.\<close>

lemma consider_known_whale:
  assumes "lower address \<in> whales_set al"
  shows "AutoLearn_consider al f now today address usd = (None, al, f)"
  using assms by (simp add: AutoLearn_consider_def)

lemma counted_fields:
  "counters (counted al now today addr) =
     AList.update addr (pruned al now addr @ [now]) (counters (state al))"
  "day (counted al now today addr) = today"
  "added_today (counted al now today addr) =
     (if day (state al) = today then added_today (state al) else 0)"
  by (simp_all add: counted_def reset_day_if_needed_def)

lemma counted_lookup:
  "map_of (counters (counted al now today addr)) addr = Some (pruned al now addr @ [now])"
  by (simp add: counted_fields update_conv')

lemma consider_not_promoted:
  assumes "enabled al" and "lower address \<notin> whales_set al"
    and "learn_min_usd al \<le> or_zero usd"
    and "\<not> (occurrences al \<le> int (length (pruned al now (lower address)) + 1) \<and>
            added_today (counted al now today (lower address)) < max_new_per_day al)"
  shows "AutoLearn_consider al f now today address usd =
      (None, al\<lparr>state := counted al now today (lower address)\<rparr>,
       save_state (al\<lparr>state := counted al now today (lower address)\<rparr>) f)"
  using assms by (simp add: AutoLearn_consider_def Let_def not_less)

lemma consider_promoted:
  assumes "enabled al" and "lower address \<notin> whales_set al"
    and "learn_min_usd al \<le> or_zero usd"
    and "occurrences al \<le> int (length (pruned al now (lower address)) + 1)"
    and "added_today (counted al now today (lower address)) < max_new_per_day al"
  shows "fst (AutoLearn_consider al f now today address usd) = Some address"
    and "whales_set (fst (snd (AutoLearn_consider al f now today address usd))) =
      insert (lower address) (whales_set al)"
    and "added_today (state (fst (snd (AutoLearn_consider al f now today address usd)))) =
      added_today (counted al now today (lower address)) + 1"
  using assms by (simp_all add: AutoLearn_consider_def Let_def not_less)

text \<open>Whatever a call does, it changes none of the settings.\<close>

lemma consider_settings:
  "enabled (fst (snd (AutoLearn_consider al f now today address usd))) = enabled al"
  "learn_min_usd (fst (snd (AutoLearn_consider al f now today address usd))) = learn_min_usd al"
  "occurrences (fst (snd (AutoLearn_consider al f now today address usd))) = occurrences al"
  "window_hours (fst (snd (AutoLearn_consider al f now today address usd))) = window_hours al"
  "max_new_per_day (fst (snd (AutoLearn_consider al f now today address usd)))
     = max_new_per_day al"
  by (simp_all add: AutoLearn_consider_def Let_def)

section \<open>Auto-learn: the daily quota\<close>

lemma consider_quota_full:
  assumes "added_today (state al) = max_new_per_day al" and "day (state al) = today"
  shows "fst (AutoLearn_consider al f now today address usd) = None"
    and "whales_set (fst (snd (AutoLearn_consider al f now today address usd))) = whales_set al"
    and "added_today (state (fst (snd (AutoLearn_consider al f now today address usd))))
      = added_today (state al)"
    and "day (state (fst (snd (AutoLearn_consider al f now today address usd))))
      = day (state al)"
  using assms by (simp_all add: AutoLearn_consider_def Let_def counted_fields)

lemma consider_all_quota_full:
  assumes "added_today (state al) = max_new_per_day al"
    and "\<forall>ev\<in>set evs. fst (snd ev) = day (state al)"
  shows "set (fst (AutoLearn_consider_all al f evs)) \<subseteq> {None} \<and>
    length (fst (AutoLearn_consider_all al f evs)) = length evs \<and>
    whales_set (fst (snd (AutoLearn_consider_all al f evs))) = whales_set al \<and>
    added_today (state (fst (snd (AutoLearn_consider_all al f evs)))) = added_today (state al) \<and>
    day (state (fst (snd (AutoLearn_consider_all al f evs)))) = day (state al)"
  using assms
proof (induction evs arbitrary: al f)
  case Nil
  then show ?case by simp
next
  case (Cons ev evs)
  obtain now today address usd where ev: "ev = (now, today, address, usd)"
    by (cases ev) auto
  obtain r al1 f1 where step: "AutoLearn_consider al f now today address usd = (r, al1, f1)"
    by (cases "AutoLearn_consider al f now today address usd") auto
  from Cons.prems ev have today: "day (state al) = today" by simp
  note q = consider_quota_full [OF Cons.prems(1) today, of f now address usd]
  from q step have r: "r = None" and w: "whales_set al1 = whales_set al"
    and a: "added_today (state al1) = added_today (state al)"
    and d: "day (state al1) = day (state al)"
    by simp_all
  have m: "max_new_per_day al1 = max_new_per_day al"
    using consider_settings(5) [of al f now today address usd] step by simp
  have p1: "added_today (state al1) = max_new_per_day al1"
    using a m Cons.prems(1) by simp
  have p2: "\<forall>ev\<in>set evs. fst (snd ev) = day (state al1)"
    using Cons.prems(2) d by simp
  note ih = Cons.IH [OF p1 p2, of f1]
  obtain rs al2 f2 where rest: "AutoLearn_consider_all al1 f1 evs = (rs, al2, f2)"
    by (cases "AutoLearn_consider_all al1 f1 evs") auto
  have all: "AutoLearn_consider_all al f (ev # evs) = (r # rs, al2, f2)"
    by (simp add: ev step rest)
  from ih rest r w a d show ?case
    by (simp add: all)
qed

text \<open>
  C4. When \<open>added_today\<close> equals \<open>max_new_per_day\<close>, no call made on the state's day
  promotes: over any run of events of that day every result is \<open>None\<close>, the whale set
  is unchanged and \<open>added_today\<close> and \<open>day\<close> keep their values, however many qualifying
  events arrive. A qualifying event of an address that is no whale is still counted: its
  timestamp is stored after those the pruning keeps. The address is evaluated again at its
  next qualifying event, and once the day has changed and the quota is positive, that event
  promotes it if the count has reached the occurrence threshold.
\<close>

theorem quota_exhausted_no_promotion:
  "added_today (state al) = max_new_per_day al \<Longrightarrow>
     ((\<forall>ev\<in>set evs. fst (snd ev) = day (state al)) \<longrightarrow>
        set (fst (AutoLearn_consider_all al f evs)) \<subseteq> {None} \<and>
        length (fst (AutoLearn_consider_all al f evs)) = length evs \<and>
        whales_set (fst (snd (AutoLearn_consider_all al f evs))) = whales_set al \<and>
        added_today (state (fst (snd (AutoLearn_consider_all al f evs))))
          = added_today (state al) \<and>
        day (state (fst (snd (AutoLearn_consider_all al f evs)))) = day (state al)) \<and>
     (enabled al \<and> lower address \<notin> whales_set al \<and> learn_min_usd al \<le> or_zero usd \<longrightarrow>
        fst (AutoLearn_consider al f now (day (state al)) address usd) = None \<and>
        map_of (counters (state (fst (snd
            (AutoLearn_consider al f now (day (state al)) address usd))))) (lower address)
          = Some (pruned al now (lower address) @ [now])) \<and>
     (enabled al \<and> lower address \<notin> whales_set al \<and> learn_min_usd al \<le> or_zero usd \<and>
      today \<noteq> day (state al) \<and> 0 < max_new_per_day al \<and>
      occurrences al \<le> int (length (pruned al now (lower address)) + 1) \<longrightarrow>
        fst (AutoLearn_consider al f now today address usd) = Some address)"
proof (intro conjI impI)
  assume full: "added_today (state al) = max_new_per_day al"
    and "\<forall>ev\<in>set evs. fst (snd ev) = day (state al)"
  then have all: "set (fst (AutoLearn_consider_all al f evs)) \<subseteq> {None} \<and>
      length (fst (AutoLearn_consider_all al f evs)) = length evs \<and>
      whales_set (fst (snd (AutoLearn_consider_all al f evs))) = whales_set al \<and>
      added_today (state (fst (snd (AutoLearn_consider_all al f evs))))
        = added_today (state al) \<and>
      day (state (fst (snd (AutoLearn_consider_all al f evs)))) = day (state al)"
    by (rule consider_all_quota_full)
  from all show "set (fst (AutoLearn_consider_all al f evs)) \<subseteq> {None}" by blast
  from all show "length (fst (AutoLearn_consider_all al f evs)) = length evs" by blast
  from all show "whales_set (fst (snd (AutoLearn_consider_all al f evs))) = whales_set al"
    by blast
  from all show "added_today (state (fst (snd (AutoLearn_consider_all al f evs))))
      = added_today (state al)" by blast
  from all show "day (state (fst (snd (AutoLearn_consider_all al f evs)))) = day (state al)"
    by blast
next
  assume full: "added_today (state al) = max_new_per_day al"
    and h: "enabled al \<and> lower address \<notin> whales_set al \<and> learn_min_usd al \<le> or_zero usd"
  have nq: "\<not> (occurrences al \<le> int (length (pruned al now (lower address)) + 1) \<and>
      added_today (counted al now (day (state al)) (lower address)) < max_new_per_day al)"
    using full by (simp add: counted_fields)
  from h have e: "enabled al" and w: "lower address \<notin> whales_set al"
    and u: "learn_min_usd al \<le> or_zero usd" by simp_all
  note step = consider_not_promoted [OF e w u nq, of f]
  show "fst (AutoLearn_consider al f now (day (state al)) address usd) = None"
    by (simp add: step)
  show "map_of (counters (state (fst (snd
        (AutoLearn_consider al f now (day (state al)) address usd))))) (lower address)
      = Some (pruned al now (lower address) @ [now])"
    by (simp add: step counted_lookup)
next
  assume h: "enabled al \<and> lower address \<notin> whales_set al \<and> learn_min_usd al \<le> or_zero usd \<and>
      today \<noteq> day (state al) \<and> 0 < max_new_per_day al \<and>
      occurrences al \<le> int (length (pruned al now (lower address)) + 1)"
  then have q: "added_today (counted al now today (lower address)) < max_new_per_day al"
    by (auto simp: counted_fields)
  from h show "fst (AutoLearn_consider al f now today address usd) = Some address"
    using consider_promoted(1) [OF _ _ _ _ q] by blast
qed

lemma lower_0xa1: "lower ''0xa1'' = ''0xa1''"
  by code_simp

lemma pruned_full_quota: "pruned full_quota_learner 300 ''0xa1'' = [100, 200]"
  by (simp add: pruned_def full_quota_learner_def example_learner_def)

theorem quota_exhausted_no_promotion_witness:
  "added_today (state full_quota_learner) = max_new_per_day full_quota_learner \<and>
   list_all (\<lambda>ev. fst (snd ev) = day (state full_quota_learner)) three_events \<and>
   set (fst (AutoLearn_consider_all full_quota_learner no_files three_events)) \<subseteq> {None} \<and>
   length (fst (AutoLearn_consider_all full_quota_learner no_files three_events)) = 3 \<and>
   (enabled full_quota_learner \<and> lower ''0xa1'' \<notin> whales_set full_quota_learner \<and>
    learn_min_usd full_quota_learner \<le> or_zero (Some 300000)) \<and>
   fst (AutoLearn_consider full_quota_learner no_files 300 ''2024-05-01'' ''0xa1''
         (Some 300000)) = None \<and>
   map_of (counters (state (fst (snd (AutoLearn_consider full_quota_learner no_files 300
         ''2024-05-01'' ''0xa1'' (Some 300000)))))) ''0xa1'' = Some [100, 200, 300] \<and>
   (''2024-05-02'' \<noteq> day (state full_quota_learner) \<and>
    0 < max_new_per_day full_quota_learner \<and>
    occurrences full_quota_learner
      \<le> int (length (pruned full_quota_learner 300 (lower ''0xa1'')) + 1)) \<and>
   fst (AutoLearn_consider full_quota_learner no_files 300 ''2024-05-02'' ''0xa1''
         (Some 300000)) = Some ''0xa1''"
proof -
  have full: "added_today (state full_quota_learner) = max_new_per_day full_quota_learner"
    by (simp add: full_quota_learner_def example_learner_def)
  have days: "\<forall>ev\<in>set three_events. fst (snd ev) = day (state full_quota_learner)"
    by (simp add: three_events_def full_quota_learner_def example_learner_def)
  have qual: "enabled full_quota_learner \<and> lower ''0xa1'' \<notin> whales_set full_quota_learner \<and>
      learn_min_usd full_quota_learner \<le> or_zero (Some 300000)"
    by (simp add: full_quota_learner_def example_learner_def or_zero_def)
  have next_day: "''2024-05-02'' \<noteq> day (state full_quota_learner) \<and>
      0 < max_new_per_day full_quota_learner \<and>
      occurrences full_quota_learner
        \<le> int (length (pruned full_quota_learner 300 (lower ''0xa1'')) + 1)"
    by (simp add: lower_0xa1 pruned_full_quota) (simp add: full_quota_learner_def
        example_learner_def)
  note t1 = quota_exhausted_no_promotion [OF full, of three_events no_files "''0xa1''"
      "Some 300000" 300 "''2024-05-02''"]
  have r1: "set (fst (AutoLearn_consider_all full_quota_learner no_files three_events)) \<subseteq> {None}"
    and r2: "length (fst (AutoLearn_consider_all full_quota_learner no_files three_events)) = 3"
    using mp [OF conjunct1 [OF t1] days] by (simp_all add: three_events_def)
  have r3: "fst (AutoLearn_consider full_quota_learner no_files 300
        (day (state full_quota_learner)) ''0xa1'' (Some 300000)) = None"
    and r4: "map_of (counters (state (fst (snd (AutoLearn_consider full_quota_learner no_files
        300 (day (state full_quota_learner)) ''0xa1'' (Some 300000))))))
        (lower ''0xa1'') = Some (pruned full_quota_learner 300 (lower ''0xa1'') @ [300])"
    using mp [OF conjunct1 [OF conjunct2 [OF t1]] qual] by simp_all
  have d: "day (state full_quota_learner) = ''2024-05-01''"
    by (simp add: full_quota_learner_def example_learner_def)
  have r5: "fst (AutoLearn_consider full_quota_learner no_files 300 ''2024-05-02'' ''0xa1''
        (Some 300000)) = Some ''0xa1''"
    using mp [OF conjunct2 [OF conjunct2 [OF t1]] conjI [OF conjunct1 [OF qual]
          conjI [OF conjunct1 [OF conjunct2 [OF qual]]
            conjI [OF conjunct2 [OF conjunct2 [OF qual]] next_day]]]] .
  have r3': "fst (AutoLearn_consider full_quota_learner no_files 300 ''2024-05-01'' ''0xa1''
        (Some 300000)) = None"
    using r3 by (simp only: d)
  have r4': "map_of (counters (state (fst (snd (AutoLearn_consider full_quota_learner no_files
        300 ''2024-05-01'' ''0xa1'' (Some 300000)))))) ''0xa1'' = Some [100, 200, 300]"
    using r4 by (simp only: d lower_0xa1 pruned_full_quota append.simps)
  have days': "list_all (\<lambda>ev. fst (snd ev) = day (state full_quota_learner)) three_events"
    using days by (simp only: list_all_iff)
  from full days' r1 r2 qual r3' r4' next_day r5 show ?thesis
    by blast
qed

section \<open>Auto-learn: the state file\<close>

lemma floats_of_floats: "floats_of (map PFloat ts) = Some ts"
  by (induction ts) simp_all

lemma counters_of_counters:
  "counters_of (map (\<lambda>(a, ts). (a, PList (map PFloat ts))) cs) = Some cs"
  by (induction cs) (auto simp: floats_of_floats)

lemma doc_state_state_doc: "doc_state (state_doc st) = Some st"
  by (simp add: doc_state_def state_doc_def counters_of_counters)

text \<open>
  C7. For every state, \<open>_save_state\<close> followed by the constructor's load gives the same
  state back: the same list of timestamps for every address, in the same order, the same
  day and the same \<open>added_today\<close>. The file holds the document that \<open>json.dump\<close> is given
  and \<open>json.load\<close> returns; the write is to a path that can be opened for writing.
\<close>

theorem save_then_load_state:
  "state_file al \<notin> readonly f \<Longrightarrow>
     load_state (save_state al f) (state_file al) today = State (state al)"
  by (simp add: save_state_def write_doc_def load_state_def read_doc_def doc_state_state_doc)

theorem save_then_load_state_witness:
  "state_file full_quota_learner \<notin> readonly no_files \<and>
   load_state (save_state full_quota_learner no_files) ''autolearn_state.json'' ''2024-06-30''
     = State \<lparr>counters = [(''0xa1'', [100, 200])], day = ''2024-05-01'', added_today = 5\<rparr>"
proof -
  have w: "state_file full_quota_learner \<notin> readonly no_files"
    by (simp add: no_files_def)
  have s: "state_file full_quota_learner = ''autolearn_state.json''"
    by (simp add: full_quota_learner_def example_learner_def)
  have st: "state full_quota_learner =
      \<lparr>counters = [(''0xa1'', [100, 200])], day = ''2024-05-01'', added_today = 5\<rparr>"
    by (simp add: full_quota_learner_def)
  from save_then_load_state [OF w, of "''2024-06-30''"] w show ?thesis
    by (simp only: s st simp_thms)
qed

section \<open>Auto-learn: the configuration file\<close>

lemma map_raise_str_lower: "map_raise str_lower (map PStr entries) = Inr (map lower entries)"
  by (induction entries) (simp_all add: str_lower_def bind_def)

lemma read_doc_Inr: "read_doc f path = Inr d \<Longrightarrow> files f path = Some (Doc d)"
  by (auto simp: read_doc_def split: option.splits content.splits)

lemma save_state_other_file:
  "path \<noteq> state_file al \<Longrightarrow> files (save_state al f) path = files f path"
  by (simp add: save_state_def write_doc_def)

lemma persist_whale_list:
  assumes "read_doc f path = Inr (PDict items)"
    and "(map_of items ''whales_evm'' = None \<and> entries = []) \<or>
         map_of items ''whales_evm'' = Some (PList (map PStr entries))"
    and "path \<notin> readonly f"
  shows "persist_whale f path (lower address) address =
      (if lower address \<in> lower ` set entries then Inr f
       else Inr (f\<lparr>files := (files f)(path \<mapsto>
              Doc (PDict (AList.update ''whales_evm'' (PList (map PStr (entries @ [address])))
                     items)))\<rparr>))"
proof -
  have cfg: "(if truthy (PDict items) then PDict items else PDict []) = PDict items"
    by (simp add: truthy_def)
  from assms(2) show ?thesis
  proof
    assume "map_of items ''whales_evm'' = None \<and> entries = []"
    then show ?thesis
      using assms(1,3)
      by (simp add: persist_whale_def bind_def cfg dict_get_def write_doc_def)
  next
    assume "map_of items ''whales_evm'' = Some (PList (map PStr entries))"
    then show ?thesis
      using assms(1,3)
      by (simp add: persist_whale_def bind_def cfg dict_get_def write_doc_def
          map_raise_str_lower)
  qed
qed

lemma consider_promoted_files:
  assumes "fst (AutoLearn_consider al f now today address usd) = Some r"
  shows "\<exists>al'. state_file al' = state_file al \<and>
      snd (snd (AutoLearn_consider al f now today address usd)) =
        save_state al'
          (if persist_to_config al then
             (case persist_whale f (config_path al) (lower address) address of
                Inl _ \<Rightarrow> f
              | Inr g \<Rightarrow> g)
           else f)"
proof -
  let ?al' = "al\<lparr>whales_set := insert (lower address) (whales_set al),
      state := (counted al now today (lower address))
        \<lparr>added_today := added_today (counted al now today (lower address)) + 1\<rparr>\<rparr>"
  from assms have "snd (snd (AutoLearn_consider al f now today address usd)) =
      save_state ?al'
        (if persist_to_config al then
           (case persist_whale f (config_path al) (lower address) address of
              Inl _ \<Rightarrow> f
            | Inr g \<Rightarrow> g)
         else f)"
    by (simp add: AutoLearn_consider_def Let_def split: if_splits)
  moreover have "state_file ?al' = state_file al" by simp
  ultimately show ?thesis by blast
qed

text \<open>
  C9. When a call promotes with \<open>persist_to_config\<close> set, and the configuration file
  holds a dict whose \<open>whales_evm\<close> is a list of strings (or is absent) and can be written,
  the file afterwards holds the same dict with the address, in the case it was passed in,
  appended to \<open>whales_evm\<close>; when the list already has the address in some case, the file
  is left as it was. Every other key of the document keeps its value. The state file is
  a different file from the configuration.
\<close>

theorem promotion_appends_to_whales_evm:
  "fst (AutoLearn_consider al f now today address usd) = Some r \<Longrightarrow>
   persist_to_config al \<Longrightarrow>
   read_doc f (config_path al) = Inr (PDict items) \<Longrightarrow>
   (map_of items ''whales_evm'' = None \<and> entries = []) \<or>
     map_of items ''whales_evm'' = Some (PList (map PStr entries)) \<Longrightarrow>
   config_path al \<notin> readonly f \<Longrightarrow>
   state_file al \<noteq> config_path al \<Longrightarrow>
     (\<exists>items'.
        read_doc (snd (snd (AutoLearn_consider al f now today address usd))) (config_path al)
          = Inr (PDict items') \<and>
        items' = (if lower address \<in> lower ` set entries then items
                  else AList.update ''whales_evm'' (PList (map PStr (entries @ [address]))) items) \<and>
        map_of items' ''whales_evm'' =
          (if lower address \<in> lower ` set entries then map_of items ''whales_evm''
           else Some (PList (map PStr (entries @ [address])))) \<and>
        (\<forall>k. k \<noteq> ''whales_evm'' \<longrightarrow> map_of items' k = map_of items k))"
proof -
  assume promoted: "fst (AutoLearn_consider al f now today address usd) = Some r"
    and persist: "persist_to_config al"
    and rd: "read_doc f (config_path al) = Inr (PDict items)"
    and lst: "(map_of items ''whales_evm'' = None \<and> entries = []) \<or>
      map_of items ''whales_evm'' = Some (PList (map PStr entries))"
    and wr: "config_path al \<notin> readonly f"
    and other: "state_file al \<noteq> config_path al"
  let ?items' = "if lower address \<in> lower ` set entries then items
      else AList.update ''whales_evm'' (PList (map PStr (entries @ [address]))) items"
  let ?g = "if lower address \<in> lower ` set entries then f
      else f\<lparr>files := (files f)(config_path al \<mapsto>
             Doc (PDict (AList.update ''whales_evm'' (PList (map PStr (entries @ [address])))
                    items)))\<rparr>"
  from consider_promoted_files [OF promoted] persist
  obtain al' where sf: "state_file al' = state_file al"
    and out: "snd (snd (AutoLearn_consider al f now today address usd)) =
      save_state al' (case persist_whale f (config_path al) (lower address) address of
                        Inl _ \<Rightarrow> f | Inr g \<Rightarrow> g)"
    by auto
  have pw: "(case persist_whale f (config_path al) (lower address) address of
              Inl _ \<Rightarrow> f | Inr g \<Rightarrow> g) = ?g"
    by (simp add: persist_whale_list [OF rd lst wr])
  have "files (save_state al' ?g) (config_path al) = files ?g (config_path al)"
    using other sf by (simp add: save_state_other_file)
  also have "\<dots> = Some (Doc (PDict ?items'))"
    using read_doc_Inr [OF rd] by simp
  finally have "read_doc (snd (snd (AutoLearn_consider al f now today address usd)))
      (config_path al) = Inr (PDict ?items')"
    by (simp add: out pw read_doc_def)
  moreover have "map_of ?items' ''whales_evm'' =
      (if lower address \<in> lower ` set entries then map_of items ''whales_evm''
       else Some (PList (map PStr (entries @ [address]))))"
    by (simp add: update_conv')
  moreover have "\<forall>k. k \<noteq> ''whales_evm'' \<longrightarrow> map_of ?items' k = map_of items k"
    by (simp add: update_conv')
  ultimately show ?thesis by blast
qed

lemma lower_0xA1: "lower ''0xA1'' = ''0xa1''"
  by code_simp

lemma lower_0xB2: "lower ''0xB2'' = ''0xb2''"
  by code_simp

lemma eager_learner_promotes:
  "fst (AutoLearn_consider eager_learner config_files 100 ''2024-05-01'' ''0xA1''
     (Some 300000)) = Some ''0xA1''"
proof (rule consider_promoted(1))
  show "enabled eager_learner"
    by (simp add: eager_learner_def example_learner_def)
  show "lower ''0xA1'' \<notin> whales_set eager_learner"
    by (simp add: eager_learner_def example_learner_def)
  show "learn_min_usd eager_learner \<le> or_zero (Some 300000)"
    by (simp add: eager_learner_def example_learner_def or_zero_def)
  show "occurrences eager_learner \<le> int (length (pruned eager_learner 100 (lower ''0xA1'')) + 1)"
    by (simp add: eager_learner_def example_learner_def)
  show "added_today (counted eager_learner 100 ''2024-05-01'' (lower ''0xA1''))
      < max_new_per_day eager_learner"
    by (simp add: counted_fields eager_learner_def example_learner_def)
qed

theorem promotion_appends_to_whales_evm_witness:
  "fst (AutoLearn_consider eager_learner config_files 100 ''2024-05-01'' ''0xA1''
     (Some 300000)) = Some ''0xA1'' \<and>
   persist_to_config eager_learner \<and>
   read_doc config_files (config_path eager_learner) = Inr (PDict config_items) \<and>
   map_of config_items ''whales_evm'' = Some (PList (map PStr [''0xB2''])) \<and>
   config_path eager_learner \<notin> readonly config_files \<and>
   state_file eager_learner \<noteq> config_path eager_learner \<and>
   read_doc (snd (snd (AutoLearn_consider eager_learner config_files 100 ''2024-05-01''
       ''0xA1'' (Some 300000)))) ''config.yaml''
     = Inr (PDict
         [(''whales_evm'', PList [PStr ''0xB2'', PStr ''0xA1'']),
          (''thresholds'', PDict [(''min_usd'', PFloat 50000), (''min_native'', PFloat 10)]),
          (''autolearn'', PDict [(''enabled'', PBool True), (''occurrences'', PInt 1)])])"
proof -
  have p: "persist_to_config eager_learner"
    by (simp add: eager_learner_def example_learner_def)
  have cp: "config_path eager_learner = ''config.yaml''"
    by (simp add: eager_learner_def example_learner_def)
  have rd: "read_doc config_files (config_path eager_learner) = Inr (PDict config_items)"
    by (simp add: cp read_doc_def config_files_def)
  have l: "map_of config_items ''whales_evm'' = Some (PList (map PStr [''0xB2'']))"
    by (simp add: config_items_def)
  have l': "(map_of config_items ''whales_evm'' = None \<and> [''0xB2''] = []) \<or>
      map_of config_items ''whales_evm'' = Some (PList (map PStr [''0xB2'']))"
    using l by (rule disjI2)
  have w: "config_path eager_learner \<notin> readonly config_files"
    by (simp add: config_files_def)
  have o: "state_file eager_learner \<noteq> config_path eager_learner"
    by (simp add: eager_learner_def example_learner_def)
  from promotion_appends_to_whales_evm [OF eager_learner_promotes p rd l' w o]
  obtain items' where r: "read_doc (snd (snd (AutoLearn_consider eager_learner config_files
        100 ''2024-05-01'' ''0xA1'' (Some 300000)))) (config_path eager_learner)
        = Inr (PDict items')"
    and i: "items' = (if lower ''0xA1'' \<in> lower ` set [''0xB2''] then config_items
        else AList.update ''whales_evm'' (PList (map PStr ([''0xB2''] @ [''0xA1''])))
               config_items)"
    by blast
  have "items' = [(''whales_evm'', PList [PStr ''0xB2'', PStr ''0xA1'']),
      (''thresholds'', PDict [(''min_usd'', PFloat 50000), (''min_native'', PFloat 10)]),
      (''autolearn'', PDict [(''enabled'', PBool True), (''occurrences'', PInt 1)])]"
    by (simp add: i lower_0xA1 lower_0xB2 config_items_def)
  with r have res: "read_doc (snd (snd (AutoLearn_consider eager_learner config_files 100
        ''2024-05-01'' ''0xA1'' (Some 300000)))) ''config.yaml''
      = Inr (PDict
         [(''whales_evm'', PList [PStr ''0xB2'', PStr ''0xA1'']),
          (''thresholds'', PDict [(''min_usd'', PFloat 50000), (''min_native'', PFloat 10)]),
          (''autolearn'', PDict [(''enabled'', PBool True), (''occurrences'', PInt 1)])])"
    by (simp only: cp)
  from eager_learner_promotes p rd l w o res show ?thesis
    by blast
qed

section \<open>Auto-learn: occurrences within the window\<close>

text \<open>Timestamps that are all at most the window old at \<open>now\<close> survive the pruning.\<close>

lemma pruned_keeps_all:
  assumes "(case map_of (counters (state al)) addr of None \<Rightarrow> [] | Some c \<Rightarrow> c) = c0"
    and "\<forall>ts\<in>set c0. now - ts \<le> real_of_int (window_hours al * 3600)"
  shows "pruned al now addr = c0"
  using assms by (simp add: pruned_def)

lemma consider_all_Cons:
  "fst (AutoLearn_consider_all al f ((now, today, address, usd) # evs)) =
     fst (AutoLearn_consider al f now today address usd)
       # fst (AutoLearn_consider_all
                (fst (snd (AutoLearn_consider al f now today address usd)))
                (snd (snd (AutoLearn_consider al f now today address usd))) evs)"
  by (simp split: prod.splits)

text \<open>
  A run of qualifying events of one address that, with the timestamps already stored,
  number exactly the occurrence threshold and all lie within the window of one another:
  every call but the last returns \<open>None\<close> and the last promotes.
\<close>

lemma consider_all_promotes_last:
  assumes "enabled al" and "lower address \<notin> whales_set al"
    and "(case map_of (counters (state al)) (lower address) of None \<Rightarrow> [] | Some c \<Rightarrow> c) = c0"
    and "evs \<noteq> []"
    and "\<forall>ev\<in>set evs. fst (snd (snd ev)) = address \<and>
           learn_min_usd al \<le> or_zero (snd (snd (snd ev)))"
    and "\<forall>ts\<in>set c0 \<union> fst ` set evs. \<forall>ts'\<in>fst ` set evs.
           ts' - ts \<le> real_of_int (window_hours al * 3600)"
    and "int (length c0 + length evs) = occurrences al"
    and "added_today (state al) < max_new_per_day al" and "0 < max_new_per_day al"
  shows "fst (AutoLearn_consider_all al f evs) = replicate (length evs - 1) None @ [Some address]"
  using assms
proof (induction evs arbitrary: al f c0)
  case Nil
  then show ?case by simp
next
  case (Cons ev evs)
  obtain now today a usd where ev: "ev = (now, today, a, usd)"
    by (cases ev) auto
  from Cons.prems(5) ev have a: "a = address" and u: "learn_min_usd al \<le> or_zero usd"
    by simp_all
  have keep: "\<forall>ts\<in>set c0. now - ts \<le> real_of_int (window_hours al * 3600)"
    using Cons.prems(6) ev by simp
  have pr: "pruned al now (lower address) = c0"
    by (rule pruned_keeps_all [OF Cons.prems(3) keep])
  have quota: "added_today (counted al now today (lower address)) < max_new_per_day al"
    using Cons.prems(8,9) by (simp add: counted_fields)
  show ?case
  proof (cases "evs = []")
    case True
    have "occurrences al \<le> int (length (pruned al now (lower address)) + 1)"
      using Cons.prems(7) True by (simp add: pr)
    then have "fst (AutoLearn_consider al f now today address usd) = Some address"
      by (rule consider_promoted(1) [OF Cons.prems(1,2) u _ quota])
    then show ?thesis
      by (simp only: True ev a consider_all_Cons) simp
  next
    case False
    let ?al1 = "al\<lparr>state := counted al now today (lower address)\<rparr>"
    let ?f1 = "save_state ?al1 f"
    have less: "\<not> (occurrences al \<le> int (length (pruned al now (lower address)) + 1) \<and>
        added_today (counted al now today (lower address)) < max_new_per_day al)"
      using Cons.prems(7) False by (cases evs) (simp_all add: pr)
    have step: "AutoLearn_consider al f now today address usd = (None, ?al1, ?f1)"
      by (rule consider_not_promoted [OF Cons.prems(1,2) u less])
    have p1: "enabled ?al1" using Cons.prems(1) by simp
    have p2: "lower address \<notin> whales_set ?al1" using Cons.prems(2) by simp
    have p3: "(case map_of (counters (state ?al1)) (lower address) of
                 None \<Rightarrow> [] | Some c \<Rightarrow> c) = c0 @ [now]"
      by (simp add: counted_lookup pr)
    have p5: "\<forall>ev\<in>set evs. fst (snd (snd ev)) = address \<and>
        learn_min_usd ?al1 \<le> or_zero (snd (snd (snd ev)))"
      using Cons.prems(5) by simp
    have p6: "\<forall>ts\<in>set (c0 @ [now]) \<union> fst ` set evs. \<forall>ts'\<in>fst ` set evs.
        ts' - ts \<le> real_of_int (window_hours ?al1 * 3600)"
      using Cons.prems(6) ev by simp
    have p7: "int (length (c0 @ [now]) + length evs) = occurrences ?al1"
      using Cons.prems(7) by simp
    have p8: "added_today (state ?al1) < max_new_per_day ?al1"
      using quota by simp
    have p9: "0 < max_new_per_day ?al1" using Cons.prems(9) by simp
    have ih: "fst (AutoLearn_consider_all ?al1 ?f1 evs) =
        replicate (length evs - 1) None @ [Some address]"
      by (rule Cons.IH [OF p1 p2 p3 False p5 p6 p7 p8 p9])
    have "fst (AutoLearn_consider_all al f (ev # evs)) =
        None # fst (AutoLearn_consider_all ?al1 ?f1 evs)"
      by (simp only: ev a consider_all_Cons step fst_conv snd_conv)
    also have "\<dots> = None # (replicate (length evs - 1) None @ [Some address])"
      by (simp only: ih)
    also have "\<dots> = replicate (length (ev # evs) - 1) None @ [Some address]"
      using False by (cases evs) simp_all
    finally show ?thesis .
  qed
qed













section \<open>Auto-learn: an address that is already a whale\<close>

lemma main_whales_set_mixed: "main_whales_set mixed_case_config = {''0xA1''}"
  by (simp add: main_whales_set_def whales_evm_of_def mixed_case_config_def dict_get_def)

lemma build_evm_whales_mixed: "build_evm_whales mixed_case_config = {''0xa1''}"
  by (simp add: build_evm_whales_def whales_evm_of_def mixed_case_config_def dict_get_def
      lower_0xA1)

text \<open>
  C2. The guard of \<open>consider\<close> looks the lower-cased address up in the set it was given.
  \<open>main\<close> gives it the entries of \<open>whales_evm\<close> as they are written, while
  \<open>build_evm_cfgs\<close> lower-cases the same entries for the watcher. With the whale
  \<open>0xA1\<close> configured in mixed case, the watcher knows \<open>0xa1\<close> as a whale, yet three
  qualifying calls for \<open>0xa1\<close> are counted and the third promotes it again.
\<close>

theorem known_whale_promoted_again:
  "''0xa1'' \<in> build_evm_whales mixed_case_config \<and>
   lower ''0xa1'' \<in> lower ` main_whales_set mixed_case_config \<and>
   fst (AutoLearn_consider_all main_learner no_files three_events)
     = [None, None, Some ''0xa1'']"
proof -
  have "fst (AutoLearn_consider_all main_learner no_files three_events) =
      replicate (length three_events - 1) None @ [Some ''0xa1'']"
  proof (rule consider_all_promotes_last [where ?c0.0 = "[]"])
    show "enabled main_learner"
      by (simp add: main_learner_def example_learner_def)
    show "lower ''0xa1'' \<notin> whales_set main_learner"
      by (simp add: main_learner_def main_whales_set_mixed lower_0xa1)
    show "(case map_of (counters (state main_learner)) (lower ''0xa1'') of
             None \<Rightarrow> [] | Some c \<Rightarrow> c) = []"
      by (simp add: main_learner_def example_learner_def)
    show "three_events \<noteq> []"
      by (simp add: three_events_def)
    show "\<forall>ev\<in>set three_events. fst (snd (snd ev)) = ''0xa1'' \<and>
        learn_min_usd main_learner \<le> or_zero (snd (snd (snd ev)))"
      by (simp add: three_events_def main_learner_def example_learner_def or_zero_def)
    show "\<forall>ts\<in>set [] \<union> fst ` set three_events. \<forall>ts'\<in>fst ` set three_events.
        ts' - ts \<le> real_of_int (window_hours main_learner * 3600)"
      by (simp add: three_events_def main_learner_def example_learner_def)
    show "int (length [] + length three_events) = occurrences main_learner"
      by (simp add: three_events_def main_learner_def example_learner_def)
    show "added_today (state main_learner) < max_new_per_day main_learner"
      by (simp add: main_learner_def example_learner_def)
    show "0 < max_new_per_day main_learner"
      by (simp add: main_learner_def example_learner_def)
  qed
  then have run: "fst (AutoLearn_consider_all main_learner no_files three_events)
      = [None, None, Some ''0xa1'']"
    by (simp add: three_events_def numeral_3_eq_3)
  have a: "''0xa1'' \<in> build_evm_whales mixed_case_config"
    by (simp add: build_evm_whales_mixed)
  have b: "lower ''0xa1'' \<in> lower ` main_whales_set mixed_case_config"
    by (simp add: main_whales_set_mixed lower_0xa1 lower_0xA1)
  from a b run show ?thesis by blast
qed

end
